theory Spec2Isabelle
  imports Main "HOL-Library.Char_ord" "HOL-Library.List_Lexorder"
begin

section \<open>Go values used by the helpers\<close>

text \<open>
  The helpers of \<^verbatim>\<open>cmd/api/helpers.go\<close> work on byte strings, on Go \<^verbatim>\<open>error\<close> values
  and on the HTTP request and response. A Go \<^verbatim>\<open>string\<close> is a sequence of bytes and is
  modelled as a \<^typ>\<open>string\<close>; a byte is read as a number with \<^const>\<open>of_char\<close>.
\<close>

definition byte_of :: "char \<Rightarrow> int" where
  "byte_of c = of_char c"

definition in_range :: "char \<Rightarrow> char \<Rightarrow> char \<Rightarrow> bool" where
  "in_range lo hi c \<longleftrightarrow> byte_of lo \<le> byte_of c \<and> byte_of c \<le> byte_of hi"

subsection \<open>Error values\<close>

text \<open>
  The Go \<^verbatim>\<open>error\<close> values that reach the helpers: the error types of \<^verbatim>\<open>encoding/json\<close>,
  the two sentinel errors of \<^verbatim>\<open>io\<close>, the \<^verbatim>\<open>*http.MaxBytesError\<close> of the body reader, and
  \<^verbatim>\<open>ErrorString\<close> for an error made by \<^verbatim>\<open>errors.New\<close> or \<^verbatim>\<open>fmt.Errorf\<close>, which has a
  message and nothing else. A \<^verbatim>\<open>*json.SyntaxError\<close> has its message and its \<^verbatim>\<open>Offset\<close>; a
  \<^verbatim>\<open>*json.UnmarshalTypeError\<close> has the fields \<^verbatim>\<open>Value\<close>, \<^verbatim>\<open>Type\<close> (its name),
  \<^verbatim>\<open>Offset\<close>, \<^verbatim>\<open>Struct\<close> and \<^verbatim>\<open>Field\<close>; a \<^verbatim>\<open>*json.InvalidUnmarshalError\<close> has the
  type of the refused destination.
\<close>

datatype invalid_target = NilValue | NonPointerOf string | NilPointerOf string

datatype go_error =
    SyntaxError (se_msg: string) (se_Offset: nat)
  | ErrUnexpectedEOF
  | UnmarshalTypeError (ute_Value: string) (ute_Type: string) (ute_Offset: nat)
      (ute_Struct: string) (ute_Field: string)
  | EOF
  | MaxBytesError (mbe_Limit: nat)
  | InvalidUnmarshalError invalid_target
  | UnsupportedTypeError string
  | ErrorString string

text \<open>The method \<^verbatim>\<open>Error()\<close> of each.\<close>

fun Error :: "go_error \<Rightarrow> string" where
  "Error (SyntaxError msg off) = msg"
| "Error ErrUnexpectedEOF = ''unexpected EOF''"
| "Error (UnmarshalTypeError v t off s f) =
     (if s \<noteq> [] \<or> f \<noteq> [] then
        ''json: cannot unmarshal '' @ v @ '' into Go struct field '' @ s @ ''.'' @ f @ '' of type '' @ t
      else ''json: cannot unmarshal '' @ v @ '' into Go value of type '' @ t)"
| "Error EOF = ''EOF''"
| "Error (MaxBytesError n) = ''http: request body too large''"
| "Error (InvalidUnmarshalError NilValue) = ''json: Unmarshal(nil)''"
| "Error (InvalidUnmarshalError (NonPointerOf t)) = ''json: Unmarshal(non-pointer '' @ t @ '')''"
| "Error (InvalidUnmarshalError (NilPointerOf t)) = ''json: Unmarshal(nil '' @ t @ '')''"
| "Error (UnsupportedTypeError t) = ''json: unsupported type: '' @ t"
| "Error (ErrorString s) = s"

subsection \<open>Decimal numerals\<close>

text \<open>
  The decimal numeral of an integer, as \<^verbatim>\<open>strconv.FormatInt(i, 10)\<close> writes it: the digits
  of the absolute value, most significant first, after a minus sign when the integer is
  negative. It is used to state which path parameters \<^verbatim>\<open>readIDParam\<close> accepts.
\<close>

definition digit_char :: "nat \<Rightarrow> char" where
  "digit_char d = char_of (48 + int d)"

fun dec_digits :: "nat \<Rightarrow> string" where
  "dec_digits n =
     (if n < 10 then [digit_char n] else dec_digits (n div 10) @ [digit_char (n mod 10)])"

definition decimal :: "int \<Rightarrow> string" where
  "decimal i = (if i < 0 then CHR ''-'' # dec_digits (nat (- i)) else dec_digits (nat i))"

text \<open>The part of a numeral after its optional sign, and the value of a digit string.\<close>

definition strip_sign :: "string \<Rightarrow> string" where
  "strip_sign s =
     (case s of [] \<Rightarrow> [] | c # cs \<Rightarrow> if c = CHR ''+'' \<or> c = CHR ''-'' then cs else s)"

fun digits_val :: "int \<Rightarrow> string \<Rightarrow> int" where
  "digits_val n [] = n"
| "digits_val n (c # cs) = digits_val (n * 10 + (byte_of c - 48)) cs"

definition invalid_id :: go_error where
  "invalid_id = ErrorString ''invalid id parameter''"

subsection \<open>strconv.ParseInt, base 10, 64 bits\<close>

text \<open>
  \<^verbatim>\<open>readIDParam\<close> calls \<^verbatim>\<open>strconv.ParseInt(s, 10, 64)\<close>. The two error kinds of
  \<^verbatim>\<open>strconv\<close> are \<^verbatim>\<open>ErrSyntax\<close> and \<^verbatim>\<open>ErrRange\<close>. A \<^verbatim>\<open>uint64\<close> is an integer
  from 0 to \<open>2 ^ 64 - 1\<close>, with the wrap-around of the addition written out; an
  \<^verbatim>\<open>int64\<close> is an integer, with the conversion from \<^verbatim>\<open>uint64\<close> and the negation
  wrapping as the machine does.
\<close>

datatype num_error = ErrSyntax | ErrRange

definition maxUint64 :: int where
  "maxUint64 = 2 ^ 64 - 1"

definition lower :: "char \<Rightarrow> char" where
  \<comment> \<open>\<^verbatim>\<open>c | ('x' - 'X')\<close>\<close>
  "lower c = char_of (or (byte_of c) 32)"

text \<open>
  The loop of \<^verbatim>\<open>ParseUint\<close> for base 10 and bit size 64, with the running value
  \<open>n\<close>: a byte that is no decimal digit is a syntax error (a letter is a digit of
  value at least 10, refused for the base), and the two overflow checks give a range
  error at once.
\<close>

fun parseUint_loop :: "int \<Rightarrow> string \<Rightarrow> num_error + int" where
  "parseUint_loop n [] = Inr n"
| "parseUint_loop n (c # cs) =
     (if in_range CHR ''0'' CHR ''9'' c then
        (let d = byte_of c - byte_of CHR ''0'' in
         if d \<ge> 10 then Inl ErrSyntax
         else if n \<ge> maxUint64 div 10 + 1 then Inl ErrRange
         else
           (let n10 = n * 10; n1 = (n10 + d) mod 2 ^ 64 in
            if n1 < n10 \<or> n1 > maxUint64 then Inl ErrRange
            else parseUint_loop n1 cs))
      else if in_range CHR ''a'' CHR ''z'' (lower c) then
        (let d = byte_of (lower c) - byte_of CHR ''a'' + 10 in
         if d \<ge> 10 then Inl ErrSyntax
         else if n \<ge> maxUint64 div 10 + 1 then Inl ErrRange
         else
           (let n10 = n * 10; n1 = (n10 + d) mod 2 ^ 64 in
            if n1 < n10 \<or> n1 > maxUint64 then Inl ErrRange
            else parseUint_loop n1 cs))
      else Inl ErrSyntax)"

definition ParseUint :: "string \<Rightarrow> num_error + int" where
  "ParseUint s = (if s = [] then Inl ErrSyntax else parseUint_loop 0 s)"

definition int64_of_uint64 :: "int \<Rightarrow> int" where
  "int64_of_uint64 un = (if un < 2 ^ 63 then un else un - 2 ^ 64)"

definition neg_int64 :: "int \<Rightarrow> int" where
  "neg_int64 n = (if n = - (2 ^ 63) then n else - n)"

text \<open>
  \<^verbatim>\<open>ParseInt\<close>: the empty string is a syntax error; one leading sign is taken off;
  a range error of \<^verbatim>\<open>ParseUint\<close> leaves \<open>un\<close> at the largest \<^verbatim>\<open>uint64\<close>, which the
  cutoff checks below turn into a range error, and any other error is returned as it is.
\<close>

definition ParseInt :: "string \<Rightarrow> num_error + int" where
  "ParseInt s =
     (if s = [] then Inl ErrSyntax
      else
        (let neg = (hd s = CHR ''-'');
             s1 = (if hd s = CHR ''+'' \<or> hd s = CHR ''-'' then tl s else s);
             cutoff = (2 ^ 63 :: int)
         in case ParseUint s1 of
              Inl ErrSyntax \<Rightarrow> Inl ErrSyntax
            | Inl ErrRange \<Rightarrow> Inl ErrRange
            | Inr un \<Rightarrow>
                if \<not> neg \<and> un \<ge> cutoff then Inl ErrRange
                else if neg \<and> un > cutoff then Inl ErrRange
                else (let n = int64_of_uint64 un in Inr (if neg then neg_int64 n else n))))"

subsection \<open>readIDParam\<close>

text \<open>
  The path parameters of \<^verbatim>\<open>httprouter\<close> are a slice of key and value pairs;
  \<^verbatim>\<open>ByName\<close> returns the value of the first pair with the key, and the empty string
  when there is none.
\<close>

type_synonym params = "(string \<times> string) list"

fun ByName :: "params \<Rightarrow> string \<Rightarrow> string" where
  "ByName [] name = []"
| "ByName ((k, v) # ps) name = (if k = name then v else ByName ps name)"

definition readIDParam :: "params \<Rightarrow> go_error + int" where
  "readIDParam ps =
     (case ParseInt (ByName ps ''id'') of
        Inl e \<Rightarrow> Inl (ErrorString ''invalid id parameter'')
      | Inr i \<Rightarrow> if i < 0 then Inl (ErrorString ''invalid id parameter'') else Inr i)"



section \<open>encoding/json: the scanner\<close>

text \<open>
  \<^verbatim>\<open>readJSON\<close> decodes with a \<^verbatim>\<open>json.Decoder\<close>, and \<^verbatim>\<open>writeJSON\<close> indents with
  \<^verbatim>\<open>json.MarshalIndent\<close>; both run the byte-at-a-time scanner of \<^verbatim>\<open>encoding/json\<close>.
  The scanner is a state machine: \<open>step\<close> names the state function that takes the next
  byte, \<open>parseState\<close> is the stack of the open objects and arrays (innermost first), and
  every call gives one of the scan codes below.
\<close>

datatype scan_code =
    scanContinue | scanBeginLiteral | scanBeginObject | scanObjectKey | scanObjectValue
  | scanEndObject | scanBeginArray | scanArrayValue | scanEndArray | scanSkipSpace
  | scanEnd | scanError

datatype parse_state = parseObjectKey | parseObjectValue | parseArrayValue

datatype step_state =
    stateBeginValue | stateBeginValueOrEmpty | stateBeginStringOrEmpty | stateBeginString
  | stateEndValue | stateEndTop | stateInString | stateInStringEsc | stateInStringEscU
  | stateInStringEscU1 | stateInStringEscU12 | stateInStringEscU123
  | stateNeg | state1 | state0 | stateDot | stateDot0 | stateE | stateESign | stateE0
  | stateT | stateTr | stateTru | stateF | stateFa | stateFal | stateFals
  | stateN | stateNu | stateNul | stateError

record scanner =
  step :: step_state
  endTop :: bool
  parseState :: "parse_state list"
  err :: "go_error option"
  bytes :: nat

definition maxNestingDepth :: nat where
  "maxNestingDepth = 10000"

definition reset :: "scanner \<Rightarrow> scanner" where
  "reset s = s\<lparr>step := stateBeginValue, parseState := [], err := None, endTop := False\<rparr>"

definition newScanner :: scanner where
  "newScanner = \<lparr>step = stateBeginValue, endTop = False, parseState = [], err = None, bytes = 0\<rparr>"

definition isSpace :: "char \<Rightarrow> bool" where
  "isSpace c \<longleftrightarrow> c = CHR '' '' \<or> c = CHR 0x09 \<or> c = CHR 0x0D \<or> c = CHR 0x0A"

definition hex_digit :: "nat \<Rightarrow> char" where
  "hex_digit d = (if d < 10 then char_of (48 + d) else char_of (87 + d))"

text \<open>
  \<^verbatim>\<open>quoteChar\<close> formats the offending byte of a syntax error: the byte between single
  quotes, written as \<^verbatim>\<open>strconv.Quote\<close> writes the code point of that value.
\<close>

definition quoteChar :: "char \<Rightarrow> string" where
  "quoteChar c =
     (let n = (of_char c :: nat) in
      if c = CHR 0x27 then [CHR 0x27, CHR 0x5C, CHR 0x27, CHR 0x27]
      else if c = CHR 0x22 then [CHR 0x27, CHR 0x22, CHR 0x27]
      else if c = CHR 0x5C then [CHR 0x27, CHR 0x5C, CHR 0x5C, CHR 0x27]
      else if 32 \<le> n \<and> n \<le> 126 then [CHR 0x27, c, CHR 0x27]
      else if n = 7 then [CHR 0x27, CHR 0x5C, CHR ''a'', CHR 0x27]
      else if n = 8 then [CHR 0x27, CHR 0x5C, CHR ''b'', CHR 0x27]
      else if n = 12 then [CHR 0x27, CHR 0x5C, CHR ''f'', CHR 0x27]
      else if n = 10 then [CHR 0x27, CHR 0x5C, CHR ''n'', CHR 0x27]
      else if n = 13 then [CHR 0x27, CHR 0x5C, CHR ''r'', CHR 0x27]
      else if n = 9 then [CHR 0x27, CHR 0x5C, CHR ''t'', CHR 0x27]
      else if n = 11 then [CHR 0x27, CHR 0x5C, CHR ''v'', CHR 0x27]
      else if n < 128 then
        [CHR 0x27, CHR 0x5C, CHR ''x'', hex_digit (n div 16), hex_digit (n mod 16), CHR 0x27]
      else if n < 161 \<or> n = 173 then
        [CHR 0x27, CHR 0x5C, CHR ''u'', CHR ''0'', CHR ''0'',
         hex_digit (n div 16), hex_digit (n mod 16), CHR 0x27]
      else [CHR 0x27, char_of (192 + n div 64), char_of (128 + n mod 64), CHR 0x27])"

definition scan_error :: "scanner \<Rightarrow> char \<Rightarrow> string \<Rightarrow> scan_code \<times> scanner" where
  "scan_error s c context =
     (scanError,
      s\<lparr>step := stateError,
        err := Some (SyntaxError (''invalid character '' @ quoteChar c @ '' '' @ context) (bytes s))\<rparr>)"

definition pushParseState ::
  "scanner \<Rightarrow> char \<Rightarrow> parse_state \<Rightarrow> scan_code \<Rightarrow> scan_code \<times> scanner" where
  "pushParseState s c newParseState successState =
     (let s1 = s\<lparr>parseState := newParseState # parseState s\<rparr> in
      if length (parseState s1) \<le> maxNestingDepth then (successState, s1)
      else scan_error s1 c ''exceeded max depth'')"

definition popParseState :: "scanner \<Rightarrow> scanner" where
  "popParseState s =
     (let ps = tl (parseState s) in
      if ps = [] then s\<lparr>parseState := ps, step := stateEndTop, endTop := True\<rparr>
      else s\<lparr>parseState := ps, step := stateEndValue\<rparr>)"

definition go_to :: "scanner \<Rightarrow> step_state \<Rightarrow> scan_code \<Rightarrow> scan_code \<times> scanner" where
  \<comment> \<open>\<^verbatim>\<open>s.step = st; return code\<close>\<close>
  "go_to s st code = (code, s\<lparr>step := st\<rparr>)"

definition do_stateEndTop :: "scanner \<Rightarrow> char \<Rightarrow> scan_code \<times> scanner" where
  "do_stateEndTop s c =
     (if \<not> isSpace c then (scanEnd, snd (scan_error s c ''after top-level value''))
      else (scanEnd, s))"

definition do_stateEndValue :: "scanner \<Rightarrow> char \<Rightarrow> scan_code \<times> scanner" where
  "do_stateEndValue s c =
     (case parseState s of
        [] \<Rightarrow> do_stateEndTop (s\<lparr>step := stateEndTop, endTop := True\<rparr>) c
      | ps # rest \<Rightarrow>
          if isSpace c then go_to s stateEndValue scanSkipSpace
          else
            (case ps of
               parseObjectKey \<Rightarrow>
                 if c = CHR '':'' then
                   go_to (s\<lparr>parseState := parseObjectValue # rest\<rparr>) stateBeginValue scanObjectKey
                 else scan_error s c ''after object key''
             | parseObjectValue \<Rightarrow>
                 if c = CHR '','' then
                   go_to (s\<lparr>parseState := parseObjectKey # rest\<rparr>) stateBeginString scanObjectValue
                 else if c = CHR ''}'' then (scanEndObject, popParseState s)
                 else scan_error s c ''after object key:value pair''
             | parseArrayValue \<Rightarrow>
                 if c = CHR '','' then go_to s stateBeginValue scanArrayValue
                 else if c = CHR '']'' then (scanEndArray, popParseState s)
                 else scan_error s c ''after array element''))"

definition do_stateBeginValue :: "scanner \<Rightarrow> char \<Rightarrow> scan_code \<times> scanner" where
  "do_stateBeginValue s c =
     (if isSpace c then (scanSkipSpace, s)
      else if c = CHR ''{'' then
        pushParseState (s\<lparr>step := stateBeginStringOrEmpty\<rparr>) c parseObjectKey scanBeginObject
      else if c = CHR ''['' then
        pushParseState (s\<lparr>step := stateBeginValueOrEmpty\<rparr>) c parseArrayValue scanBeginArray
      else if c = CHR 0x22 then go_to s stateInString scanBeginLiteral
      else if c = CHR ''-'' then go_to s stateNeg scanBeginLiteral
      else if c = CHR ''0'' then go_to s state0 scanBeginLiteral
      else if c = CHR ''t'' then go_to s stateT scanBeginLiteral
      else if c = CHR ''f'' then go_to s stateF scanBeginLiteral
      else if c = CHR ''n'' then go_to s stateN scanBeginLiteral
      else if in_range CHR ''1'' CHR ''9'' c then go_to s state1 scanBeginLiteral
      else scan_error s c ''looking for beginning of value'')"

definition do_stateBeginValueOrEmpty :: "scanner \<Rightarrow> char \<Rightarrow> scan_code \<times> scanner" where
  "do_stateBeginValueOrEmpty s c =
     (if isSpace c then (scanSkipSpace, s)
      else if c = CHR '']'' then do_stateEndValue s c
      else do_stateBeginValue s c)"

definition do_stateBeginString :: "scanner \<Rightarrow> char \<Rightarrow> scan_code \<times> scanner" where
  "do_stateBeginString s c =
     (if isSpace c then (scanSkipSpace, s)
      else if c = CHR 0x22 then go_to s stateInString scanBeginLiteral
      else scan_error s c ''looking for beginning of object key string'')"

definition do_stateBeginStringOrEmpty :: "scanner \<Rightarrow> char \<Rightarrow> scan_code \<times> scanner" where
  "do_stateBeginStringOrEmpty s c =
     (if isSpace c then (scanSkipSpace, s)
      else if c = CHR ''}'' then
        do_stateEndValue (s\<lparr>parseState := parseObjectValue # tl (parseState s)\<rparr>) c
      else do_stateBeginString s c)"

definition do_stateInString :: "scanner \<Rightarrow> char \<Rightarrow> scan_code \<times> scanner" where
  "do_stateInString s c =
     (if c = CHR 0x22 then go_to s stateEndValue scanContinue
      else if c = CHR 0x5C then go_to s stateInStringEsc scanContinue
      else if byte_of c < 32 then scan_error s c ''in string literal''
      else (scanContinue, s))"

definition do_stateInStringEsc :: "scanner \<Rightarrow> char \<Rightarrow> scan_code \<times> scanner" where
  "do_stateInStringEsc s c =
     (if c \<in> set [CHR ''b'', CHR ''f'', CHR ''n'', CHR ''r'', CHR ''t'', CHR 0x5C, CHR ''/'', CHR 0x22]
      then go_to s stateInString scanContinue
      else if c = CHR ''u'' then go_to s stateInStringEscU scanContinue
      else scan_error s c ''in string escape code'')"

definition is_hex :: "char \<Rightarrow> bool" where
  "is_hex c \<longleftrightarrow>
     in_range CHR ''0'' CHR ''9'' c \<or> in_range CHR ''a'' CHR ''f'' c \<or> in_range CHR ''A'' CHR ''F'' c"

definition do_stateInStringEscU :: "step_state \<Rightarrow> scanner \<Rightarrow> char \<Rightarrow> scan_code \<times> scanner" where
  \<comment> \<open>the four states of a \<^verbatim>\<open>\u\<close> escape differ in the state that follows only\<close>
  "do_stateInStringEscU next s c =
     (if is_hex c then go_to s next scanContinue
      else scan_error s c (CHR ''i'' # CHR ''n'' # CHR '' '' # CHR 0x5C # ''u hexadecimal character escape''))"

definition do_stateNeg :: "scanner \<Rightarrow> char \<Rightarrow> scan_code \<times> scanner" where
  "do_stateNeg s c =
     (if c = CHR ''0'' then go_to s state0 scanContinue
      else if in_range CHR ''1'' CHR ''9'' c then go_to s state1 scanContinue
      else scan_error s c ''in numeric literal'')"

definition do_state0 :: "scanner \<Rightarrow> char \<Rightarrow> scan_code \<times> scanner" where
  "do_state0 s c =
     (if c = CHR ''.'' then go_to s stateDot scanContinue
      else if c = CHR ''e'' \<or> c = CHR ''E'' then go_to s stateE scanContinue
      else do_stateEndValue s c)"

definition do_state1 :: "scanner \<Rightarrow> char \<Rightarrow> scan_code \<times> scanner" where
  "do_state1 s c =
     (if in_range CHR ''0'' CHR ''9'' c then go_to s state1 scanContinue
      else do_state0 s c)"

definition do_stateDot :: "scanner \<Rightarrow> char \<Rightarrow> scan_code \<times> scanner" where
  "do_stateDot s c =
     (if in_range CHR ''0'' CHR ''9'' c then go_to s stateDot0 scanContinue
      else scan_error s c ''after decimal point in numeric literal'')"

definition do_stateDot0 :: "scanner \<Rightarrow> char \<Rightarrow> scan_code \<times> scanner" where
  "do_stateDot0 s c =
     (if in_range CHR ''0'' CHR ''9'' c then (scanContinue, s)
      else if c = CHR ''e'' \<or> c = CHR ''E'' then go_to s stateE scanContinue
      else do_stateEndValue s c)"

definition do_stateESign :: "scanner \<Rightarrow> char \<Rightarrow> scan_code \<times> scanner" where
  "do_stateESign s c =
     (if in_range CHR ''0'' CHR ''9'' c then go_to s stateE0 scanContinue
      else scan_error s c ''in exponent of numeric literal'')"

definition do_stateE :: "scanner \<Rightarrow> char \<Rightarrow> scan_code \<times> scanner" where
  "do_stateE s c =
     (if c = CHR ''+'' \<or> c = CHR ''-'' then go_to s stateESign scanContinue
      else do_stateESign s c)"

definition do_stateE0 :: "scanner \<Rightarrow> char \<Rightarrow> scan_code \<times> scanner" where
  "do_stateE0 s c =
     (if in_range CHR ''0'' CHR ''9'' c then (scanContinue, s)
      else do_stateEndValue s c)"

definition expect :: "char \<Rightarrow> step_state \<Rightarrow> string \<Rightarrow> scanner \<Rightarrow> char \<Rightarrow> scan_code \<times> scanner" where
  \<comment> \<open>the states inside \<^verbatim>\<open>true\<close>, \<^verbatim>\<open>false\<close> and \<^verbatim>\<open>null\<close>: one expected byte each\<close>
  "expect want next context s c =
     (if c = want then go_to s next scanContinue else scan_error s c context)"

definition scan_step :: "scanner \<Rightarrow> char \<Rightarrow> scan_code \<times> scanner" where
  "scan_step s c =
     (case step s of
        stateBeginValue \<Rightarrow> do_stateBeginValue s c
      | stateBeginValueOrEmpty \<Rightarrow> do_stateBeginValueOrEmpty s c
      | stateBeginStringOrEmpty \<Rightarrow> do_stateBeginStringOrEmpty s c
      | stateBeginString \<Rightarrow> do_stateBeginString s c
      | stateEndValue \<Rightarrow> do_stateEndValue s c
      | stateEndTop \<Rightarrow> do_stateEndTop s c
      | stateInString \<Rightarrow> do_stateInString s c
      | stateInStringEsc \<Rightarrow> do_stateInStringEsc s c
      | stateInStringEscU \<Rightarrow> do_stateInStringEscU stateInStringEscU1 s c
      | stateInStringEscU1 \<Rightarrow> do_stateInStringEscU stateInStringEscU12 s c
      | stateInStringEscU12 \<Rightarrow> do_stateInStringEscU stateInStringEscU123 s c
      | stateInStringEscU123 \<Rightarrow> do_stateInStringEscU stateInString s c
      | stateNeg \<Rightarrow> do_stateNeg s c
      | state1 \<Rightarrow> do_state1 s c
      | state0 \<Rightarrow> do_state0 s c
      | stateDot \<Rightarrow> do_stateDot s c
      | stateDot0 \<Rightarrow> do_stateDot0 s c
      | stateE \<Rightarrow> do_stateE s c
      | stateESign \<Rightarrow> do_stateESign s c
      | stateE0 \<Rightarrow> do_stateE0 s c
      | stateT \<Rightarrow> expect CHR ''r'' stateTr (''in literal true (expecting '' @ quoteChar CHR ''r'' @ '')'') s c
      | stateTr \<Rightarrow> expect CHR ''u'' stateTru (''in literal true (expecting '' @ quoteChar CHR ''u'' @ '')'') s c
      | stateTru \<Rightarrow> expect CHR ''e'' stateEndValue (''in literal true (expecting '' @ quoteChar CHR ''e'' @ '')'') s c
      | stateF \<Rightarrow> expect CHR ''a'' stateFa (''in literal false (expecting '' @ quoteChar CHR ''a'' @ '')'') s c
      | stateFa \<Rightarrow> expect CHR ''l'' stateFal (''in literal false (expecting '' @ quoteChar CHR ''l'' @ '')'') s c
      | stateFal \<Rightarrow> expect CHR ''s'' stateFals (''in literal false (expecting '' @ quoteChar CHR ''s'' @ '')'') s c
      | stateFals \<Rightarrow> expect CHR ''e'' stateEndValue (''in literal false (expecting '' @ quoteChar CHR ''e'' @ '')'') s c
      | stateN \<Rightarrow> expect CHR ''u'' stateNu (''in literal null (expecting '' @ quoteChar CHR ''u'' @ '')'') s c
      | stateNu \<Rightarrow> expect CHR ''l'' stateNul (''in literal null (expecting '' @ quoteChar CHR ''l'' @ '')'') s c
      | stateNul \<Rightarrow> expect CHR ''l'' stateEndValue (''in literal null (expecting '' @ quoteChar CHR ''l'' @ '')'') s c
      | stateError \<Rightarrow> (scanError, s))"

section \<open>The request body and the decoder\<close>

subsection \<open>http.MaxBytesReader\<close>

text \<open>
  A request body is the sequence of its bytes; reading it to its end gives \<^verbatim>\<open>io.EOF\<close>.
  \<^verbatim>\<open>http.MaxBytesReader(w, r.Body, n)\<close> delivers the first \<open>n\<close> bytes of the body and
  then, when the body is longer, fails with a \<^verbatim>\<open>*http.MaxBytesError\<close> that holds the
  limit. A reader is the pair of the bytes it delivers and the error that ends them.
\<close>

type_synonym reader = "string \<times> go_error"

definition MaxBytesReader :: "string \<Rightarrow> nat \<Rightarrow> reader" where
  "MaxBytesReader body n =
     (take n body, if length body > n then MaxBytesError n else EOF)"

subsection \<open>Decoder.readValue\<close>

text \<open>
  The state of a \<^verbatim>\<open>json.Decoder\<close>: \<open>buf\<close> holds the bytes of the reader from the
  decoder's position on, \<open>rerr\<close> the error the reader gives after them, \<open>scan\<close> the
  scanner (its count \<open>bytes\<close> runs over the whole stream), \<open>derr\<close> the error the decoder
  keeps once reading has failed, and \<open>disallowUnknownFields\<close> the flag of that name.
  The decoder scans every byte it has before it looks at the error of the read that
  brought them, so what it returns does not depend on how the reads cut the stream.
\<close>

record decoder =
  buf :: string
  rerr :: go_error
  scan :: scanner
  derr :: "go_error option"
  disallowUnknownFields :: bool

definition NewDecoder :: "reader \<Rightarrow> decoder" where
  "NewDecoder r =
     \<lparr>buf = fst r, rerr = snd r, scan = newScanner, derr = None, disallowUnknownFields = False\<rparr>"

definition DisallowUnknownFields :: "decoder \<Rightarrow> decoder" where
  "DisallowUnknownFields dec = dec\<lparr>disallowUnknownFields := True\<rparr>"

text \<open>
  The inner loop of \<^verbatim>\<open>readValue\<close> over the bytes at hand, \<open>n\<close> of them scanned so far.
  A value ends before the byte that gives \<^verbatim>\<open>scanEnd\<close>, which is then not counted; an
  object or an array ends with its closing bracket, found by offering the scanner a space
  in place of the next byte.
\<close>

datatype scan_result =
    ValueEnd nat scanner
  | ScanFailed go_error scanner
  | OutOfBytes scanner

fun scan_loop :: "scanner \<Rightarrow> string \<Rightarrow> nat \<Rightarrow> scan_result" where
  "scan_loop s [] n = OutOfBytes s"
| "scan_loop s (c # cs) n =
     (case scan_step (s\<lparr>bytes := bytes s + 1\<rparr>) c of
        (scanEnd, s1) \<Rightarrow> ValueEnd n (s1\<lparr>bytes := bytes s1 - 1\<rparr>)
      | (scanEndObject, s1) \<Rightarrow>
          (case do_stateEndValue s1 CHR '' '' of
             (scanEnd, s2) \<Rightarrow> ValueEnd (Suc n) s2
           | (_, s2) \<Rightarrow> scan_loop s2 cs (Suc n))
      | (scanEndArray, s1) \<Rightarrow>
          (case do_stateEndValue s1 CHR '' '' of
             (scanEnd, s2) \<Rightarrow> ValueEnd (Suc n) s2
           | (_, s2) \<Rightarrow> scan_loop s2 cs (Suc n))
      | (scanError, s1) \<Rightarrow>
          ScanFailed (case err s1 of Some e \<Rightarrow> e | None \<Rightarrow> ErrorString []) s1
      | (_, s1) \<Rightarrow> scan_loop s1 cs (Suc n))"

definition nonSpace :: "string \<Rightarrow> bool" where
  "nonSpace b \<longleftrightarrow> (\<exists>c \<in> set b. \<not> isSpace c)"

text \<open>
  \<^verbatim>\<open>readValue\<close> gives the length of the next value in \<open>buf\<close>, or the error. When the
  bytes run out with \<^verbatim>\<open>io.EOF\<close>, a value that a space would end is complete; otherwise
  the error is \<^verbatim>\<open>io.ErrUnexpectedEOF\<close> when a byte other than white space was read and
  \<^verbatim>\<open>io.EOF\<close> when none was. Any other read error is returned as it is.
\<close>

definition readValue :: "decoder \<Rightarrow> (go_error + nat) \<times> decoder" where
  "readValue dec =
     (case scan_loop (reset (scan dec)) (buf dec) 0 of
        ValueEnd n s \<Rightarrow> (Inr n, dec\<lparr>scan := s\<rparr>)
      | ScanFailed e s \<Rightarrow> (Inl e, dec\<lparr>scan := s, derr := Some e\<rparr>)
      | OutOfBytes s \<Rightarrow>
          if rerr dec = EOF then
            (case scan_step s CHR '' '' of
               (scanEnd, s1) \<Rightarrow> (Inr (length (buf dec)), dec\<lparr>scan := s1\<rparr>)
             | (_, s1) \<Rightarrow>
                 (let e = (if nonSpace (buf dec) then ErrUnexpectedEOF else EOF)
                  in (Inl e, dec\<lparr>scan := s1, derr := Some e\<rparr>)))
          else (Inl (rerr dec), dec\<lparr>scan := s, derr := Some (rerr dec)\<rparr>))"

section \<open>encoding/json: storing a value in a destination\<close>

subsection \<open>The value as a tree\<close>

text \<open>
  After \<^verbatim>\<open>readValue\<close> the decoder walks the text of the value with the same scanner and
  stores what it finds in the destination. The walk is modelled in two parts: the text is
  cut into a tree by the scan codes, and the tree is stored by the type of the
  destination. Every node keeps its place in the text, \<open>start\<close> and \<open>end\<close> (the index
  after its last byte): the \<^verbatim>\<open>Offset\<close> of a type error is \<open>end\<close> for a literal and
  \<open>start + 1\<close> for an object or an array. A literal keeps its text; the key of a member
  is the text of its string literal.
\<close>

datatype json =
    JLit nat nat string
  | JArr nat nat "json list"
  | JObj nat nat "(string \<times> json) list"

datatype frame =
    FArr nat "json list"
  | FObj nat "(string \<times> json) list" "string option"

record builder =
  bscan :: scanner
  frames :: "frame list"
  lit :: "(nat \<times> string) option"
  result :: "json option"
  pos :: nat

fun lit_text :: "json \<Rightarrow> string" where
  "lit_text (JLit st en t) = t"
| "lit_text (JArr st en xs) = []"
| "lit_text (JObj st en ms) = []"

definition deliver :: "json \<Rightarrow> builder \<Rightarrow> builder" where
  "deliver v b =
     (case frames b of
        [] \<Rightarrow> b\<lparr>result := Some v\<rparr>
      | FArr st xs # fs \<Rightarrow> b\<lparr>frames := FArr st (xs @ [v]) # fs\<rparr>
      | FObj st ms None # fs \<Rightarrow> b\<lparr>frames := FObj st ms (Some (lit_text v)) # fs\<rparr>
      | FObj st ms (Some k) # fs \<Rightarrow> b\<lparr>frames := FObj st (ms @ [(k, v)]) None # fs\<rparr>)"

definition close_lit :: "builder \<Rightarrow> builder" where
  "close_lit b =
     (case lit b of
        None \<Rightarrow> b
      | Some (st, t) \<Rightarrow> deliver (JLit st (pos b) t) (b\<lparr>lit := None\<rparr>))"

definition close_frame :: "builder \<Rightarrow> builder" where
  "close_frame b =
     (case frames b of
        [] \<Rightarrow> b
      | FArr st xs # fs \<Rightarrow> deliver (JArr st (Suc (pos b)) xs) (b\<lparr>frames := fs\<rparr>)
      | FObj st ms k # fs \<Rightarrow> deliver (JObj st (Suc (pos b)) ms) (b\<lparr>frames := fs\<rparr>))"

text \<open>
  What the builder does with one byte and its scan code; the scanner itself is stepped
  in \<open>build_step\<close>.
\<close>

definition build_event :: "builder \<Rightarrow> scan_code \<times> char \<Rightarrow> builder" where
  "build_event b0 ev =
     (case ev of (code, c) \<Rightarrow>
        if code = scanContinue then
          (case lit b0 of
             Some (st, t) \<Rightarrow> b0\<lparr>lit := Some (st, t @ [c]), pos := Suc (pos b0)\<rparr>
           | None \<Rightarrow> b0\<lparr>pos := Suc (pos b0)\<rparr>)
        else
          (let b1 = close_lit b0;
               b2 = (case code of
                       scanBeginLiteral \<Rightarrow> b1\<lparr>lit := Some (pos b1, [c])\<rparr>
                     | scanBeginObject \<Rightarrow> b1\<lparr>frames := FObj (pos b1) [] None # frames b1\<rparr>
                     | scanBeginArray \<Rightarrow> b1\<lparr>frames := FArr (pos b1) [] # frames b1\<rparr>
                     | scanEndObject \<Rightarrow> close_frame b1
                     | scanEndArray \<Rightarrow> close_frame b1
                     | _ \<Rightarrow> b1)
           in b2\<lparr>pos := Suc (pos b2)\<rparr>))"

definition build_step :: "builder \<Rightarrow> char \<Rightarrow> builder" where
  "build_step b c =
     (case scan_step (bscan b) c of (code, s) \<Rightarrow> build_event (b\<lparr>bscan := s\<rparr>) (code, c))"

definition parse_tree :: "string \<Rightarrow> json option" where
  "parse_tree text =
     result (close_lit (foldl build_step
       \<lparr>bscan = newScanner, frames = [], lit = None, result = None, pos = 0\<rparr> text))"

subsection \<open>String literals\<close>

text \<open>
  \<^verbatim>\<open>utf8.DecodeRune\<close> on bytes from 0x80 on: the length of the well-formed sequence at the
  head of the bytes, and 0 when there is none.
\<close>

definition cont_in :: "nat \<Rightarrow> nat \<Rightarrow> string \<Rightarrow> nat \<Rightarrow> bool" where
  "cont_in lo hi s i \<longleftrightarrow> i < length s \<and> lo \<le> (of_char (s ! i) :: nat) \<and> (of_char (s ! i) :: nat) \<le> hi"

definition utf8_len :: "string \<Rightarrow> nat" where
  "utf8_len s =
     (case s of [] \<Rightarrow> 0 | c # cs \<Rightarrow>
        (let b = (of_char c :: nat) in
         if 194 \<le> b \<and> b \<le> 223 then (if cont_in 128 191 s 1 then 2 else 0)
         else if b = 224 then (if cont_in 160 191 s 1 \<and> cont_in 128 191 s 2 then 3 else 0)
         else if (225 \<le> b \<and> b \<le> 236) \<or> b = 238 \<or> b = 239 then
           (if cont_in 128 191 s 1 \<and> cont_in 128 191 s 2 then 3 else 0)
         else if b = 237 then (if cont_in 128 159 s 1 \<and> cont_in 128 191 s 2 then 3 else 0)
         else if b = 240 then
           (if cont_in 144 191 s 1 \<and> cont_in 128 191 s 2 \<and> cont_in 128 191 s 3 then 4 else 0)
         else if 241 \<le> b \<and> b \<le> 243 then
           (if cont_in 128 191 s 1 \<and> cont_in 128 191 s 2 \<and> cont_in 128 191 s 3 then 4 else 0)
         else if b = 244 then
           (if cont_in 128 143 s 1 \<and> cont_in 128 191 s 2 \<and> cont_in 128 191 s 3 then 4 else 0)
         else 0))"

definition RuneError :: string where
  "RuneError = [CHR 0xEF, CHR 0xBF, CHR 0xBD]"

definition EncodeRune :: "nat \<Rightarrow> string" where
  "EncodeRune r =
     (if r < 128 then [char_of r]
      else if r < 2048 then [char_of (192 + r div 64), char_of (128 + r mod 64)]
      else if (55296 \<le> r \<and> r < 57344) \<or> r > 1114111 then RuneError
      else if r < 65536 then
        [char_of (224 + r div 4096), char_of (128 + r div 64 mod 64), char_of (128 + r mod 64)]
      else [char_of (240 + r div 262144), char_of (128 + r div 4096 mod 64),
            char_of (128 + r div 64 mod 64), char_of (128 + r mod 64)])"

definition hex_val :: "char \<Rightarrow> nat option" where
  "hex_val c =
     (let b = (of_char c :: nat) in
      if 48 \<le> b \<and> b \<le> 57 then Some (b - 48)
      else if 97 \<le> b \<and> b \<le> 102 then Some (b - 87)
      else if 65 \<le> b \<and> b \<le> 70 then Some (b - 55)
      else None)"

definition getu4 :: "string \<Rightarrow> nat option" where
  "getu4 s =
     (case s of
        b # u # h1 # h2 # h3 # h4 # rest \<Rightarrow>
          if b = CHR 0x5C \<and> u = CHR ''u'' then
            (case (hex_val h1, hex_val h2, hex_val h3, hex_val h4) of
               (Some a, Some b, Some c, Some d) \<Rightarrow> Some (a * 4096 + b * 256 + c * 16 + d)
             | _ \<Rightarrow> None)
          else None
      | _ \<Rightarrow> None)"

definition IsSurrogate :: "nat \<Rightarrow> bool" where
  "IsSurrogate r \<longleftrightarrow> 55296 \<le> r \<and> r < 57344"

definition utf16_DecodeRune :: "nat \<Rightarrow> nat option \<Rightarrow> nat option" where
  "utf16_DecodeRune r1 r2 =
     (case r2 of
        None \<Rightarrow> None
      | Some r2 \<Rightarrow>
          if 55296 \<le> r1 \<and> r1 < 56320 \<and> 56320 \<le> r2 \<and> r2 < 57344
          then Some ((r1 - 55296) * 1024 + (r2 - 56320) + 65536)
          else None)"

text \<open>
  \<^verbatim>\<open>unquoteBytes\<close>, on the bytes between the quotes: escapes are replaced, a
  \<^verbatim>\<open>\u\<close> escape by the UTF-8 form of its code point (two escapes that are a surrogate
  pair by the form of the pair's code point, a lone surrogate by U+FFFD), and bytes that
  are not well-formed UTF-8 are replaced by U+FFFD one at a time.
\<close>

function unquote_body :: "string \<Rightarrow> string option" where
  "unquote_body s =
     (case s of
        [] \<Rightarrow> Some []
      | c # cs \<Rightarrow>
          if c = CHR 0x5C then
            (case cs of
               [] \<Rightarrow> None
             | e # es \<Rightarrow>
                 if e = CHR 0x22 \<or> e = CHR 0x5C \<or> e = CHR ''/'' \<or> e = CHR 0x27 then
                   map_option ((#) e) (unquote_body es)
                 else if e = CHR ''b'' then map_option ((#) (CHR 0x08)) (unquote_body es)
                 else if e = CHR ''f'' then map_option ((#) (CHR 0x0C)) (unquote_body es)
                 else if e = CHR ''n'' then map_option ((#) (CHR 0x0A)) (unquote_body es)
                 else if e = CHR ''r'' then map_option ((#) (CHR 0x0D)) (unquote_body es)
                 else if e = CHR ''t'' then map_option ((#) (CHR 0x09)) (unquote_body es)
                 else if e = CHR ''u'' then
                   (case getu4 s of
                      None \<Rightarrow> None
                    | Some rr \<Rightarrow>
                        if IsSurrogate rr then
                          (case utf16_DecodeRune rr (getu4 (drop 6 s)) of
                             Some d \<Rightarrow> map_option ((@) (EncodeRune d)) (unquote_body (drop 12 s))
                           | None \<Rightarrow> map_option ((@) RuneError) (unquote_body (drop 6 s)))
                        else map_option ((@) (EncodeRune rr)) (unquote_body (drop 6 s)))
                 else None)
          else if c = CHR 0x22 \<or> (of_char c :: nat) < 32 then None
          else if (of_char c :: nat) < 128 then map_option ((#) c) (unquote_body cs)
          else
            (let n = utf8_len s in
             if n = 0 then map_option ((@) RuneError) (unquote_body cs)
             else map_option ((@) (take n s)) (unquote_body (drop n s))))"
  by pat_completeness auto
termination
  by (relation "measure length") auto

declare unquote_body.simps [simp del]

definition unquote :: "string \<Rightarrow> string option" where
  "unquote s =
     (if length s < 2 \<or> hd s \<noteq> CHR 0x22 \<or> last s \<noteq> CHR 0x22 then None
      else unquote_body (butlast (tl s)))"

subsection \<open>Tables of the Unicode standard\<close>

text \<open>
  Two functions of the library read tables of the Unicode standard, which are no part of
  this theory: \<^verbatim>\<open>foldRune\<close> of \<^verbatim>\<open>encoding/json\<close>, which gives the smallest code point
  among those that \<^verbatim>\<open>unicode.SimpleFold\<close> takes for the same letter, and
  \<^verbatim>\<open>strconv.IsPrint\<close>, for the code points above U+00FF. The two tables are a parameter
  of every function that reads them, and of every property of such a function.
\<close>

record unicode =
  foldRune :: "nat \<Rightarrow> nat"
  isPrint_table :: "nat \<Rightarrow> bool"

text \<open>
  An example needs tables to be stated for. The examples of this theory are stated for
  \<open>identity_tables\<close>, which fold every code point to itself and have no printable code
  point above U+00FF. They are the tables of no version of Unicode; the properties are
  proved for all tables, and the bodies of the examples are such that no entry of a
  table decides the result.
\<close>

definition identity_tables :: unicode where
  "identity_tables = \<lparr>foldRune = (\<lambda>r. r), isPrint_table = (\<lambda>r. False)\<rparr>"

text \<open>
  \<^verbatim>\<open>utf8.DecodeRune\<close>: the code point at the head of the bytes and its width; bytes that
  are not well-formed give U+FFFD and the width 1.
\<close>

definition rune_width :: "string \<Rightarrow> nat" where
  "rune_width s =
     (case s of [] \<Rightarrow> 0 | c # cs \<Rightarrow>
        if (of_char c :: nat) < 128 then 1 else if utf8_len s = 0 then 1 else utf8_len s)"

definition rune_value :: "string \<Rightarrow> nat" where
  "rune_value s =
     (case s of [] \<Rightarrow> 65533 | c # cs \<Rightarrow>
        (let b = (of_char c :: nat); n = utf8_len s; v = (\<lambda>i. (of_char (s ! i) :: nat) mod 64) in
         if b < 128 then b
         else if n = 2 then b mod 32 * 64 + v 1
         else if n = 3 then b mod 16 * 4096 + v 1 * 64 + v 2
         else if n = 4 then b mod 8 * 262144 + v 1 * 4096 + v 2 * 64 + v 3
         else 65533))"

text \<open>
  \<^verbatim>\<open>strconv.IsPrint\<close> decides the code points up to U+00FF itself; \<^verbatim>\<open>strconv.Quote\<close>,
  which the verb \<^verbatim>\<open>%q\<close> of \<^verbatim>\<open>fmt\<close> calls, writes a string between quotes: the quote
  and the backslash escaped, a printable code point as it is, the other code points as
  \<^verbatim>\<open>\a \b \f \n \r \t \v\<close>, \<^verbatim>\<open>\x\<close>, \<^verbatim>\<open>\u\<close> or \<^verbatim>\<open>\U\<close> escapes, and a byte that is
  not well-formed UTF-8 as a \<^verbatim>\<open>\x\<close> escape.
\<close>

definition IsPrint :: "unicode \<Rightarrow> nat \<Rightarrow> bool" where
  "IsPrint u r =
     (if r \<le> 255 then (32 \<le> r \<and> r \<le> 126) \<or> (161 \<le> r \<and> r \<noteq> 173)
      else isPrint_table u r)"

definition hex4 :: "nat \<Rightarrow> string" where
  "hex4 r = [hex_digit (r div 4096 mod 16), hex_digit (r div 256 mod 16),
             hex_digit (r div 16 mod 16), hex_digit (r mod 16)]"

definition ValidRune :: "nat \<Rightarrow> bool" where
  "ValidRune r \<longleftrightarrow> r < 55296 \<or> (57343 < r \<and> r \<le> 1114111)"

definition appendEscapedRune :: "unicode \<Rightarrow> nat \<Rightarrow> string" where
  "appendEscapedRune u r =
     (if r = 34 \<or> r = 92 then [CHR 0x5C, char_of r]
      else if IsPrint u r then EncodeRune r
      else if r = 7 then [CHR 0x5C, CHR ''a'']
      else if r = 8 then [CHR 0x5C, CHR ''b'']
      else if r = 12 then [CHR 0x5C, CHR ''f'']
      else if r = 10 then [CHR 0x5C, CHR ''n'']
      else if r = 13 then [CHR 0x5C, CHR ''r'']
      else if r = 9 then [CHR 0x5C, CHR ''t'']
      else if r = 11 then [CHR 0x5C, CHR ''v'']
      else if r < 32 \<or> r = 127 then
        [CHR 0x5C, CHR ''x'', hex_digit (r div 16), hex_digit (r mod 16)]
      else if \<not> ValidRune r then [CHR 0x5C, CHR ''u''] @ hex4 65533
      else if r < 65536 then [CHR 0x5C, CHR ''u''] @ hex4 r
      else [CHR 0x5C, CHR ''U''] @ hex4 (r div 65536) @ hex4 (r mod 65536))"

function Quote_body :: "unicode \<Rightarrow> string \<Rightarrow> string" where
  "Quote_body u [] = []"
| "Quote_body u (c # cs) =
     (if (of_char c :: nat) < 128 then appendEscapedRune u (of_char c) @ Quote_body u cs
      else if utf8_len (c # cs) = 0 then
        [CHR 0x5C, CHR ''x'', hex_digit ((of_char c :: nat) div 16),
         hex_digit ((of_char c :: nat) mod 16)] @ Quote_body u cs
      else appendEscapedRune u (rune_value (c # cs))
             @ Quote_body u (drop (utf8_len (c # cs)) (c # cs)))"
  by pat_completeness auto
termination
  by (relation "measure (\<lambda>(u, s). length s)") auto

definition Quote :: "unicode \<Rightarrow> string \<Rightarrow> string" where
  "Quote u s = [CHR 0x22] @ Quote_body u s @ [CHR 0x22]"

text \<open>
  \<^verbatim>\<open>foldName\<close> of \<^verbatim>\<open>encoding/json\<close>: the ASCII letters in upper case, every other code
  point replaced by its \<^verbatim>\<open>foldRune\<close>. Two names are equal under case folding when their
  folded names are equal.
\<close>

function foldName :: "unicode \<Rightarrow> string \<Rightarrow> string" where
  "foldName u [] = []"
| "foldName u (c # cs) =
     (if (of_char c :: nat) < 128 then
        (if in_range CHR ''a'' CHR ''z'' c then char_of (byte_of c - 32) else c) # foldName u cs
      else EncodeRune (foldRune u (rune_value (c # cs)))
             @ foldName u (drop (rune_width (c # cs)) (c # cs)))"
  by pat_completeness auto
termination
  by (relation "measure (\<lambda>(u, s). length s)") (auto simp: rune_width_def)

subsection \<open>Destinations\<close>

text \<open>
  The destination of \<^verbatim>\<open>Decode\<close> is an \<^verbatim>\<open>any\<close>. What the decoder does with it depends on
  its type: a destination that is \<^verbatim>\<open>nil\<close>, no pointer, or a nil pointer is refused; a
  pointer is followed to a value of one of the types below. \<open>TStruct\<close> is a struct type
  with the JSON names and the types of its fields; \<open>TCustom\<close> is a type with its own
  \<^verbatim>\<open>UnmarshalJSON\<close> method, which gets the text of the value and may return any error.
  Type names are written without the package.
\<close>

datatype go_type =
    TBool
  | TString
  | TInt64
  | TStruct string "(string \<times> go_type) list"
  | TCustom string "string \<Rightarrow> go_error option"

datatype destination =
    NilDestination
  | NonPointer string
  | NilPointer string
  | Pointer go_type

fun type_name :: "go_type \<Rightarrow> string" where
  "type_name TBool = ''bool''"
| "type_name TString = ''string''"
| "type_name TInt64 = ''int64''"
| "type_name (TStruct n fs) = n"
| "type_name (TCustom n f) = n"

text \<open>
  The error context of the decoder: the struct being filled, when there is one, and the
  names of the fields on the way to the value. \<^verbatim>\<open>addErrorContext\<close> writes them into an
  \<^verbatim>\<open>UnmarshalTypeError\<close>; \<^verbatim>\<open>saveError\<close> keeps the first error only.
\<close>

type_synonym error_context = "string option \<times> string list"

fun join_dot :: "string list \<Rightarrow> string" where
  "join_dot [] = []"
| "join_dot [x] = x"
| "join_dot (x # y # ys) = x @ ''.'' @ join_dot (y # ys)"

definition addErrorContext :: "error_context \<Rightarrow> go_error \<Rightarrow> go_error" where
  "addErrorContext ctx e =
     (if fst ctx \<noteq> None \<or> snd ctx \<noteq> [] then
        (case e of
           UnmarshalTypeError v t off s f \<Rightarrow>
             UnmarshalTypeError v t off (case fst ctx of None \<Rightarrow> [] | Some n \<Rightarrow> n) (join_dot (snd ctx))
         | _ \<Rightarrow> e)
      else e)"

definition saveError :: "error_context \<Rightarrow> go_error \<Rightarrow> go_error option \<Rightarrow> go_error option" where
  "saveError ctx e saved = (case saved of None \<Rightarrow> Some (addErrorContext ctx e) | Some e0 \<Rightarrow> Some e0)"

text \<open>
  The field of a key: the field of that very name, or else the first field whose name is
  equal to the key under case folding.
\<close>

definition find_field ::
  "unicode \<Rightarrow> (string \<times> go_type) list \<Rightarrow> string \<Rightarrow> (string \<times> go_type) option" where
  "find_field u fs key =
     (case find (\<lambda>f. fst f = key) fs of
        Some f \<Rightarrow> Some f
      | None \<Rightarrow> find (\<lambda>f. foldName u (fst f) = foldName u key) fs)"

definition phasePanicMsg :: string where
  "phasePanicMsg = ''JSON decoder out of sync - data changing underfoot?''"

text \<open>
  \<^verbatim>\<open>literalStore\<close> for the types without a method of their own. The first byte of the
  literal tells its kind. \<^verbatim>\<open>null\<close> leaves these types as they are; any other literal of
  the wrong kind, and a number that is no \<^verbatim>\<open>int64\<close>, is a type error at the end of the
  literal.
\<close>

definition literal_kind :: "string \<Rightarrow> string" where
  "literal_kind item =
     (if hd item = CHR ''n'' then ''null''
      else if hd item = CHR ''t'' \<or> hd item = CHR ''f'' then ''bool''
      else if hd item = CHR 0x22 then ''string''
      else ''number'')"

definition literalStore :: "string \<Rightarrow> nat \<Rightarrow> go_type \<Rightarrow> go_error option" where
  "literalStore item off ty =
     (let k = literal_kind item in
      if k = ''null'' then None
      else if k = ''bool'' then
        (case ty of
           TBool \<Rightarrow> None
         | _ \<Rightarrow> Some (UnmarshalTypeError ''bool'' (type_name ty) off [] []))
      else if k = ''string'' then
        (case ty of
           TString \<Rightarrow> None
         | _ \<Rightarrow> Some (UnmarshalTypeError ''string'' (type_name ty) off [] []))
      else
        (case ty of
           TInt64 \<Rightarrow>
             (case ParseInt item of
                Inl e \<Rightarrow> Some (UnmarshalTypeError (''number '' @ item) (type_name ty) off [] [])
              | Inr n \<Rightarrow> None)
         | _ \<Rightarrow> Some (UnmarshalTypeError ''number'' (type_name ty) off [] [])))"

text \<open>
  \<^verbatim>\<open>d.value\<close>, \<^verbatim>\<open>d.object\<close> and \<^verbatim>\<open>d.array\<close>: the result is \<open>Inl\<close> the error of an
  \<^verbatim>\<open>UnmarshalJSON\<close> method, which ends the walk at once, or \<open>Inr\<close> the saved error after
  the value. An object fills a struct member by member: a key without a field is saved as
  an error when unknown fields are disallowed and its value is skipped; the value of a key
  with a field is stored in the field, under the context of the struct and the field.
\<close>

fun raw_text :: "string \<Rightarrow> json \<Rightarrow> string" where
  "raw_text data (JLit st en t) = t"
| "raw_text data (JArr st en xs) = take (en - st) (drop st data)"
| "raw_text data (JObj st en ms) = take (en - st) (drop st data)"

fun is_custom :: "go_type \<Rightarrow> bool" where
  "is_custom (TCustom n f) = True"
| "is_custom _ = False"

fun store :: "unicode \<Rightarrow> bool \<Rightarrow> string \<Rightarrow> error_context \<Rightarrow> go_type \<Rightarrow> json \<Rightarrow> go_error option
                \<Rightarrow> go_error + go_error option"
  and store_members :: "unicode \<Rightarrow> bool \<Rightarrow> string \<Rightarrow> error_context \<Rightarrow> string \<Rightarrow> (string \<times> go_type) list
                \<Rightarrow> (string \<times> json) list \<Rightarrow> go_error option \<Rightarrow> go_error + go_error option" where
  "store u duf data ctx ty (JLit st en item) saved =
     (case ty of
        TCustom n f \<Rightarrow> (case f item of Some e \<Rightarrow> Inl e | None \<Rightarrow> Inr saved)
      | _ \<Rightarrow>
          (case literalStore item en ty of
             Some e \<Rightarrow> Inr (saveError ctx e saved)
           | None \<Rightarrow> Inr saved))"
| "store u duf data ctx ty (JArr st en xs) saved =
     (case ty of
        TCustom n f \<Rightarrow>
          (case f (take (en - st) (drop st data)) of Some e \<Rightarrow> Inl e | None \<Rightarrow> Inr saved)
      | _ \<Rightarrow> Inr (saveError ctx (UnmarshalTypeError ''array'' (type_name ty) (Suc st) [] []) saved))"
| "store u duf data ctx ty (JObj st en ms) saved =
     (case ty of
        TCustom n f \<Rightarrow>
          (case f (take (en - st) (drop st data)) of Some e \<Rightarrow> Inl e | None \<Rightarrow> Inr saved)
      | TStruct n fs \<Rightarrow> store_members u duf data ctx n fs ms saved
      | _ \<Rightarrow> Inr (saveError ctx (UnmarshalTypeError ''object'' (type_name ty) (Suc st) [] []) saved))"
| "store_members u duf data ctx n fs [] saved = Inr saved"
| "store_members u duf data ctx n fs ((k, v) # ms) saved =
     (case unquote k of
        None \<Rightarrow> Inl (ErrorString phasePanicMsg)
      | Some key \<Rightarrow>
          (case find_field u fs key of
             None \<Rightarrow>
               store_members u duf data ctx n fs ms
                 (if duf then saveError ctx (ErrorString (''json: unknown field '' @ Quote u key)) saved
                  else saved)
           | Some f \<Rightarrow>
               (case store u duf data (Some n, snd ctx @ [fst f]) (snd f) v saved of
                  Inl e \<Rightarrow> Inl e
                | Inr saved1 \<Rightarrow> store_members u duf data ctx n fs ms saved1)))"

text \<open>
  \<^verbatim>\<open>d.unmarshal\<close>: the destination is checked first, then the value is stored, and the
  result is the error of a method, or else the saved error.
\<close>

definition unmarshal :: "unicode \<Rightarrow> bool \<Rightarrow> destination \<Rightarrow> string \<Rightarrow> go_error option" where
  "unmarshal u duf dst data =
     (case dst of
        NilDestination \<Rightarrow> Some (InvalidUnmarshalError NilValue)
      | NonPointer t \<Rightarrow> Some (InvalidUnmarshalError (NonPointerOf t))
      | NilPointer t \<Rightarrow> Some (InvalidUnmarshalError (NilPointerOf t))
      | Pointer ty \<Rightarrow>
          (case parse_tree data of
             None \<Rightarrow> Some (ErrorString phasePanicMsg)
           | Some j \<Rightarrow>
               (case store u duf data (None, []) ty j None of
                  Inl e \<Rightarrow> Some e
                | Inr saved \<Rightarrow> saved)))"

subsection \<open>Decoder.Decode\<close>

text \<open>
  \<^verbatim>\<open>Decode\<close> returns the error the decoder has kept, if any; else it reads the next
  value, moves past it, and stores it. An error of storing is returned but not kept.
\<close>

definition Decode :: "unicode \<Rightarrow> decoder \<Rightarrow> destination \<Rightarrow> go_error option \<times> decoder" where
  "Decode u dec dst =
     (case derr dec of
        Some e \<Rightarrow> (Some e, dec)
      | None \<Rightarrow>
          (case readValue dec of
             (Inl e, dec1) \<Rightarrow> (Some e, dec1)
           | (Inr n, dec1) \<Rightarrow>
               (unmarshal u (disallowUnknownFields dec1) dst (take n (buf dec1)),
                dec1\<lparr>buf := drop n (buf dec1)\<rparr>)))"

section \<open>readJSON\<close>

text \<open>
  A function of the helpers returns an \<^verbatim>\<open>error\<close> (\<open>None\<close> is \<^verbatim>\<open>nil\<close>) or panics.
\<close>

datatype outcome = Returns "go_error option" | Panics go_error

definition HasPrefix :: "string \<Rightarrow> string \<Rightarrow> bool" where
  "HasPrefix s p \<longleftrightarrow> take (length p) s = p"

definition TrimPrefix :: "string \<Rightarrow> string \<Rightarrow> string" where
  "TrimPrefix s p = (if HasPrefix s p then drop (length p) s else s)"

fun As_SyntaxError :: "go_error \<Rightarrow> bool" where
  "As_SyntaxError (SyntaxError m off) = True"
| "As_SyntaxError _ = False"

fun As_UnmarshalTypeError :: "go_error \<Rightarrow> bool" where
  "As_UnmarshalTypeError (UnmarshalTypeError v t off s f) = True"
| "As_UnmarshalTypeError _ = False"

fun As_MaxBytesError :: "go_error \<Rightarrow> bool" where
  "As_MaxBytesError (MaxBytesError n) = True"
| "As_MaxBytesError _ = False"

fun As_InvalidUnmarshalError :: "go_error \<Rightarrow> bool" where
  "As_InvalidUnmarshalError (InvalidUnmarshalError t) = True"
| "As_InvalidUnmarshalError _ = False"

definition maxBites :: nat where
  "maxBites = 1048576"

text \<open>
  The triage of the error of the first \<^verbatim>\<open>Decode\<close>: the cases of the \<^verbatim>\<open>switch\<close>, in the
  order of the source. \<^verbatim>\<open>errors.As\<close> asks for the type of the error and \<^verbatim>\<open>errors.Is\<close> for
  one of the two values of \<^verbatim>\<open>io\<close>; \<^verbatim>\<open>%d\<close> writes a decimal numeral and \<^verbatim>\<open>%q\<close> a
  quoted string, for which it needs the tables of Unicode. The message of the type error
  without a field has a tab between \<^verbatim>\<open>JSON\<close> and \<^verbatim>\<open>type\<close>, as the source has.
\<close>

definition triage :: "unicode \<Rightarrow> go_error \<Rightarrow> outcome" where
  "triage u e =
     (if As_SyntaxError e then
        Returns (Some (ErrorString
          (''body contains badly-formed JSON (at character '' @ decimal (int (se_Offset e)) @ '')'')))
      else if e = ErrUnexpectedEOF then
        Returns (Some (ErrorString ''body contains badly-formed JSON''))
      else if As_UnmarshalTypeError e then
        (if ute_Field e \<noteq> [] then
           Returns (Some (ErrorString
             (''body contains incorrect JSON type for field '' @ Quote u (ute_Field e))))
         else
           Returns (Some (ErrorString
             (''body contains incorrect JSON'' @ [CHR 0x09] @ ''type at (at character ''
                @ decimal (int (ute_Offset e)) @ '')''))))
      else if e = EOF then
        Returns (Some (ErrorString ''body cannot be empty''))
      else if HasPrefix (Error e) ''json: unknown field'' then
        (let fieldName = TrimPrefix (Error e) ''json: unknown field''
         in Returns (Some (ErrorString (''body contains unknown key '' @ fieldName))))
      else if As_MaxBytesError e then
        Returns (Some (ErrorString
          (''body cannot be larger than '' @ decimal (int (mbe_Limit e)) @ '' bytes'')))
      else if As_InvalidUnmarshalError e then Panics e
      else Returns (Some e))"

text \<open>
  \<^verbatim>\<open>readJSON\<close>: the body is limited to \<open>maxBites\<close> bytes, the decoder refuses unknown
  fields, the first \<^verbatim>\<open>Decode\<close> fills the destination, and a second \<^verbatim>\<open>Decode\<close> into an
  empty struct must give \<^verbatim>\<open>io.EOF\<close>. The response writer is handed to the reader of the
  body only and is not part of the model.
\<close>

definition empty_struct :: destination where
  "empty_struct = Pointer (TStruct ''struct {}'' [])"

definition readJSON :: "unicode \<Rightarrow> string \<Rightarrow> destination \<Rightarrow> outcome" where
  "readJSON u body dst =
     (let dec = DisallowUnknownFields (NewDecoder (MaxBytesReader body maxBites)) in
      case Decode u dec dst of
        (Some e, dec1) \<Rightarrow> triage u e
      | (None, dec1) \<Rightarrow>
          (case Decode u dec1 empty_struct of
             (err2, dec2) \<Rightarrow>
               if err2 \<noteq> Some EOF then
                 Returns (Some (ErrorString ''body can only contain a single json value''))
               else Returns None))"

text \<open>
  Names for the parts of a call that the properties speak about: the decoder that
  \<^verbatim>\<open>readJSON\<close> builds, the error of its first \<^verbatim>\<open>Decode\<close>, and the length of the first
  value that \<^verbatim>\<open>readValue\<close> finds in the body.
\<close>

definition body_decoder :: "string \<Rightarrow> decoder" where
  "body_decoder body = DisallowUnknownFields (NewDecoder (MaxBytesReader body maxBites))"

definition first_decode :: "unicode \<Rightarrow> string \<Rightarrow> destination \<Rightarrow> go_error option" where
  "first_decode u body dst = fst (Decode u (body_decoder body) dst)"

definition first_value_length :: "string \<Rightarrow> nat option" where
  "first_value_length body =
     (case fst (readValue (body_decoder body)) of Inl e \<Rightarrow> None | Inr n \<Rightarrow> Some n)"


definition empty_body_error :: go_error where
  "empty_body_error = ErrorString ''body cannot be empty''"

text \<open>The scanner's error, when it has one, is a syntax error.\<close>

definition good_err :: "scanner \<Rightarrow> bool" where
  "good_err s \<longleftrightarrow> (case err s of None \<Rightarrow> True | Some e \<Rightarrow> As_SyntaxError e)"


text \<open>
  A prefix of a body is incomplete when the scanner reads all of it without reaching the
  end of a value or an error. The destinations that \<^verbatim>\<open>Unmarshal\<close> refuses, with the error.
\<close>

definition incomplete :: "string \<Rightarrow> bool" where
  "incomplete b = (case scan_loop (reset newScanner) b 0 of OutOfBytes s \<Rightarrow> True | _ \<Rightarrow> False)"

fun refusal :: "destination \<Rightarrow> go_error option" where
  "refusal NilDestination = Some (InvalidUnmarshalError NilValue)"
| "refusal (NonPointer t) = Some (InvalidUnmarshalError (NonPointerOf t))"
| "refusal (NilPointer t) = Some (InvalidUnmarshalError (NilPointerOf t))"
| "refusal (Pointer ty) = None"

definition too_large_error :: go_error where
  "too_large_error = ErrorString ''body cannot be larger than 1048576 bytes''"

section \<open>writeJSON\<close>

subsection \<open>The envelope and json.Marshal\<close>

text \<open>
  An \<^verbatim>\<open>envelope\<close> is a \<^verbatim>\<open>map[string]any\<close>. The values it holds are modelled by their kinds:
  \<^verbatim>\<open>nil\<close>, a boolean, an integer, a string, a slice, a map with string keys (the list of
  its entries, with distinct keys), and \<open>VUnsupported\<close> for a value of a type that
  \<^verbatim>\<open>encoding/json\<close> refuses, a channel or a function, with the name of the type. The
  envelope itself is a map or \<^verbatim>\<open>nil\<close>.
\<close>

datatype go_value =
    VNil
  | VBool bool
  | VInt int
  | VString string
  | VSlice "go_value list"
  | VMap "(string \<times> go_value) list"
  | VUnsupported string

type_synonym envelope = "(string \<times> go_value) list option"

text \<open>
  \<^verbatim>\<open>appendString\<close> with HTML escaping on, as \<^verbatim>\<open>Marshal\<close> calls it: the quote, the
  backslash, the control bytes and \<^verbatim>\<open><\<close>, \<^verbatim>\<open>>\<close>, \<^verbatim>\<open>&\<close> are escaped, bytes that are
  not well-formed UTF-8 become the escape of U+FFFD one at a time, and U+2028 and U+2029 are
  escaped.
\<close>

definition escape_byte :: "char \<Rightarrow> string" where
  "escape_byte c =
     (let n = (of_char c :: nat) in
      if c = CHR 0x5C \<or> c = CHR 0x22 then [CHR 0x5C, c]
      else if n = 8 then [CHR 0x5C, CHR ''b'']
      else if n = 12 then [CHR 0x5C, CHR ''f'']
      else if n = 10 then [CHR 0x5C, CHR ''n'']
      else if n = 13 then [CHR 0x5C, CHR ''r'']
      else if n = 9 then [CHR 0x5C, CHR ''t'']
      else if n < 32 \<or> c = CHR ''<'' \<or> c = CHR ''>'' \<or> c = CHR ''&'' then
        [CHR 0x5C, CHR ''u'', CHR ''0'', CHR ''0'', hex_digit (n div 16), hex_digit (n mod 16)]
      else [c])"

function appendString_body :: "string \<Rightarrow> string" where
  "appendString_body s =
     (case s of
        [] \<Rightarrow> []
      | c # cs \<Rightarrow>
          if (of_char c :: nat) < 128 then escape_byte c @ appendString_body cs
          else
            (let n = utf8_len s in
             if n = 0 then [CHR 0x5C] @ ''ufffd'' @ appendString_body cs
             else if take n s = [CHR 0xE2, CHR 0x80, CHR 0xA8] then
               [CHR 0x5C] @ ''u2028'' @ appendString_body (drop n s)
             else if take n s = [CHR 0xE2, CHR 0x80, CHR 0xA9] then
               [CHR 0x5C] @ ''u2029'' @ appendString_body (drop n s)
             else take n s @ appendString_body (drop n s)))"
  by pat_completeness auto
termination
  by (relation "measure length") auto

declare appendString_body.simps [simp del]

definition appendString :: "string \<Rightarrow> string" where
  "appendString s = [CHR 0x22] @ appendString_body s @ [CHR 0x22]"

text \<open>
  \<^verbatim>\<open>Marshal\<close>, without indentation: \<^verbatim>\<open>null\<close>, \<^verbatim>\<open>true\<close> and \<^verbatim>\<open>false\<close>, the decimal
  numeral, the quoted string, the elements of a slice between brackets, and the entries
  of a map between braces, sorted by their keys. A value of an unsupported type anywhere
  in the envelope makes the whole call fail with a \<^verbatim>\<open>*json.UnsupportedTypeError\<close>.
\<close>

fun insert_entry :: "string \<times> 'a \<Rightarrow> (string \<times> 'a) list \<Rightarrow> (string \<times> 'a) list" where
  "insert_entry e [] = [e]"
| "insert_entry e (x # xs) = (if fst e \<le> fst x then e # x # xs else x # insert_entry e xs)"

definition sort_entries :: "(string \<times> 'a) list \<Rightarrow> (string \<times> 'a) list" where
  "sort_entries kvs = foldr insert_entry kvs []"

fun join_comma :: "string list \<Rightarrow> string" where
  "join_comma [] = []"
| "join_comma [x] = x"
| "join_comma (x # y # ys) = x @ '','' @ join_comma (y # ys)"

fun sequence :: "(go_error + 'a) list \<Rightarrow> go_error + 'a list" where
  "sequence [] = Inr []"
| "sequence (x # xs) =
     (case x of
        Inl e \<Rightarrow> Inl e
      | Inr v \<Rightarrow> (case sequence xs of Inl e \<Rightarrow> Inl e | Inr vs \<Rightarrow> Inr (v # vs)))"

definition marshal_entry :: "string \<times> (go_error + string) \<Rightarrow> go_error + string" where
  "marshal_entry kr =
     (case snd kr of Inl e \<Rightarrow> Inl e | Inr t \<Rightarrow> Inr (appendString (fst kr) @ '':'' @ t))"

fun marshal :: "go_value \<Rightarrow> go_error + string" where
  "marshal VNil = Inr ''null''"
| "marshal (VBool b) = Inr (if b then ''true'' else ''false'')"
| "marshal (VInt i) = Inr (decimal i)"
| "marshal (VString s) = Inr (appendString s)"
| "marshal (VSlice xs) =
     (case sequence (map marshal xs) of
        Inl e \<Rightarrow> Inl e
      | Inr ts \<Rightarrow> Inr (''['' @ join_comma ts @ '']''))"
| "marshal (VMap kvs) =
     (case sequence (map marshal_entry (sort_entries (map (\<lambda>(k, v). (k, marshal v)) kvs))) of
        Inl e \<Rightarrow> Inl e
      | Inr ts \<Rightarrow> Inr (''{'' @ join_comma ts @ ''}''))"
| "marshal (VUnsupported t) = Inl (UnsupportedTypeError t)"

definition Marshal :: "envelope \<Rightarrow> go_error + string" where
  "Marshal data = (case data of None \<Rightarrow> Inr ''null'' | Some kvs \<Rightarrow> marshal (VMap kvs))"

subsection \<open>json.Indent\<close>

text \<open>
  \<^verbatim>\<open>MarshalIndent\<close> runs the scanner over the output of \<^verbatim>\<open>Marshal\<close> and copies it with a
  new line and \<open>depth\<close> indents after an opening bracket and after a comma, a space
  after a colon, and a new line before a closing bracket; an empty object or array stays
  as it is.
\<close>

record indenter =
  iscan :: scanner
  needIndent :: bool
  depth :: nat
  out :: string

definition appendNewline :: "string \<Rightarrow> string \<Rightarrow> string \<Rightarrow> nat \<Rightarrow> string" where
  "appendNewline dst prefix indent d = dst @ [CHR 0x0A] @ prefix @ concat (replicate d indent)"

definition indent_event :: "string \<Rightarrow> string \<Rightarrow> indenter \<Rightarrow> scan_code \<times> char \<Rightarrow> indenter" where
  "indent_event prefix indent st0 ev =
     (case ev of (v, c) \<Rightarrow>
        if v = scanSkipSpace then st0
        else if v = scanError then st0
        else
          (let st1 = (if needIndent st0 \<and> v \<noteq> scanEndObject \<and> v \<noteq> scanEndArray then
                        st0\<lparr>needIndent := False, depth := depth st0 + 1,
                            out := appendNewline (out st0) prefix indent (depth st0 + 1)\<rparr>
                      else st0)
           in if v = scanContinue then st1\<lparr>out := out st1 @ [c]\<rparr>
              else if c = CHR ''{'' \<or> c = CHR ''['' then
                st1\<lparr>needIndent := True, out := out st1 @ [c]\<rparr>
              else if c = CHR '','' then
                st1\<lparr>out := appendNewline (out st1 @ [c]) prefix indent (depth st1)\<rparr>
              else if c = CHR '':'' then st1\<lparr>out := out st1 @ [c, CHR '' '']\<rparr>
              else if c = CHR ''}'' \<or> c = CHR '']'' then
                (if needIndent st1 then st1\<lparr>needIndent := False, out := out st1 @ [c]\<rparr>
                 else st1\<lparr>depth := depth st1 - 1,
                          out := appendNewline (out st1) prefix indent (depth st1 - 1) @ [c]\<rparr>)
              else st1\<lparr>out := out st1 @ [c]\<rparr>))"

definition indent_step :: "string \<Rightarrow> string \<Rightarrow> indenter \<Rightarrow> char \<Rightarrow> indenter" where
  "indent_step prefix indent st c =
     (case scan_step ((iscan st)\<lparr>bytes := bytes (iscan st) + 1\<rparr>) c of (v, s) \<Rightarrow>
        indent_event prefix indent (st\<lparr>iscan := s\<rparr>) (v, c))"

definition scan_eof :: "scanner \<Rightarrow> scan_code \<times> scanner" where
  "scan_eof s =
     (if err s \<noteq> None then (scanError, s)
      else if endTop s then (scanEnd, s)
      else
        (let s1 = snd (scan_step s CHR '' '') in
         if endTop s1 then (scanEnd, s1)
         else if err s1 = None then
           (scanError, s1\<lparr>err := Some (SyntaxError ''unexpected end of JSON input'' (bytes s1))\<rparr>)
         else (scanError, s1)))"

definition Indent :: "string \<Rightarrow> string \<Rightarrow> string \<Rightarrow> go_error + string" where
  "Indent src prefix indent =
     (let st = foldl (indent_step prefix indent)
                 \<lparr>iscan = newScanner, needIndent = False, depth = 0, out = []\<rparr> src
      in case scan_eof (iscan st) of
           (scanError, s) \<Rightarrow> Inl (case err s of Some e \<Rightarrow> e | None \<Rightarrow> ErrorString [])
         | (_, s) \<Rightarrow> Inr (out st))"

definition MarshalIndent :: "envelope \<Rightarrow> string \<Rightarrow> string \<Rightarrow> go_error + string" where
  "MarshalIndent data prefix indent =
     (case Marshal data of
        Inl e \<Rightarrow> Inl e
      | Inr b \<Rightarrow> Indent b prefix indent)"

subsection \<open>The response writer\<close>

text \<open>
  An \<^verbatim>\<open>http.ResponseWriter\<close> is modelled as the writer of the server of \<^verbatim>\<open>net/http\<close>, by
  what has been handed to it: the header map, the informational responses sent, whether
  the status line of the response has been written and with which code, and the bytes
  written as the body. The key \<^verbatim>\<open>Content-Type\<close> that \<^verbatim>\<open>writeJSON\<close> gives to \<^verbatim>\<open>Set\<close> is in
  canonical form already.
\<close>

record response_writer =
  header :: "string \<rightharpoonup> string list"
  informational :: "int list"
  wroteHeader :: bool
  statusCode :: int
  written :: string
  write_error :: "go_error option"

definition Header_Set :: "response_writer \<Rightarrow> string \<Rightarrow> string \<Rightarrow> response_writer" where
  "Header_Set w key v = w\<lparr>header := (header w)(key \<mapsto> [v])\<rparr>"

text \<open>
  \<^verbatim>\<open>checkWriteHeaderCode\<close> panics on a code that has not three digits; \<^verbatim>\<open>%v\<close> writes the
  code as a decimal numeral.
\<close>

definition checkWriteHeaderCode :: "int \<Rightarrow> go_error option" where
  "checkWriteHeaderCode code =
     (if code < 100 \<or> code > 999 then
        Some (ErrorString (''invalid WriteHeader code '' @ decimal code))
      else None)"

text \<open>
  \<^verbatim>\<open>WriteHeader\<close> does nothing once the status line is written. Else it checks the code,
  and panics (\<open>Inl\<close>) on an invalid one. A code from 100 to 199 other than 101 is sent as an
  informational response, and the status line of the response itself is still to be
  written; any other code is the status of the response. The value of the panic is a
  string, which is written here as an \<open>ErrorString\<close>.
\<close>

definition WriteHeader :: "response_writer \<Rightarrow> int \<Rightarrow> go_error + response_writer" where
  "WriteHeader w code =
     (if wroteHeader w then Inr w
      else case checkWriteHeaderCode code of
        Some p \<Rightarrow> Inl p
      | None \<Rightarrow>
          if 100 \<le> code \<and> code \<le> 199 \<and> code \<noteq> 101 then
            Inr (w\<lparr>informational := informational w @ [code]\<rparr>)
          else Inr (w\<lparr>wroteHeader := True, statusCode := code\<rparr>))"

text \<open>
  \<^verbatim>\<open>Write\<close> writes the status line with the code 200 first when it has not been written.
  It takes no body when the status is informational, 204 or 304, and returns
  \<^verbatim>\<open>ErrBodyNotAllowed\<close> then; else it takes the bytes and returns \<open>write_error\<close>, the
  error of the connection when its writes fail.
\<close>

definition bodyAllowedForStatus :: "int \<Rightarrow> bool" where
  "bodyAllowedForStatus status \<longleftrightarrow>
     \<not> (100 \<le> status \<and> status \<le> 199) \<and> status \<noteq> 204 \<and> status \<noteq> 304"

definition ErrBodyNotAllowed :: go_error where
  "ErrBodyNotAllowed =
     ErrorString ''http: request method or response status code does not allow body''"

definition Write :: "response_writer \<Rightarrow> string \<Rightarrow> response_writer \<times> go_error option" where
  "Write w b =
     (let w1 = (if wroteHeader w then w else w\<lparr>wroteHeader := True, statusCode := 200\<rparr>)
      in if b = [] then (w1, None)
         else if \<not> bodyAllowedForStatus (statusCode w1) then (w1, Some ErrBodyNotAllowed)
         else (w1\<lparr>written := written w1 @ b\<rparr>, write_error w1))"

subsection \<open>writeJSON\<close>

text \<open>
  \<^verbatim>\<open>writeJSON\<close> returns its error, or panics, and leaves the writer in a new state. The
  loop over \<^verbatim>\<open>headers\<close> stores every entry of the map in the header map of the writer,
  which is the map \<open>header w ++ headers\<close> whatever the order of the loop; a \<^verbatim>\<open>nil\<close> map
  has no entries. A panic of \<^verbatim>\<open>w.WriteHeader\<close> leaves \<^verbatim>\<open>writeJSON\<close> at once, after the
  header map has been filled. The results of \<^verbatim>\<open>w.Write\<close> are dropped, as in the source.
\<close>

definition writeJSON ::
  "response_writer \<Rightarrow> int \<Rightarrow> envelope \<Rightarrow> (string \<rightharpoonup> string list)
     \<Rightarrow> outcome \<times> response_writer" where
  "writeJSON w status data headers =
     (case MarshalIndent data [] [CHR 0x09] of
        Inl e \<Rightarrow> (Returns (Some e), w)
      | Inr js0 \<Rightarrow>
          (let js = js0 @ [CHR 0x0A];
               w1 = w\<lparr>header := header w ++ headers\<rparr>;
               w2 = Header_Set w1 ''Content-Type'' ''application/json''
           in case WriteHeader w2 status of
                Inl p \<Rightarrow> (Panics p, w2)
              | Inr w3 \<Rightarrow> (Returns None, fst (Write w3 js))))"

section \<open>Properties\<close>

subsection \<open>readIDParam\<close>

declare dec_digits.simps [simp del]

lemma byte_of_digit_char: "d < 10 \<Longrightarrow> byte_of (digit_char d) = 48 + int d"
  by (simp add: byte_of_def digit_char_def)

lemma in_range_digit_char: "d < 10 \<Longrightarrow> in_range CHR ''0'' CHR ''9'' (digit_char d)"
  by (simp add: in_range_def byte_of_digit_char) (simp add: byte_of_def)

lemma in_range_digit_iff: "in_range CHR ''0'' CHR ''9'' c \<longleftrightarrow> 48 \<le> byte_of c \<and> byte_of c \<le> 57"
  by (simp add: in_range_def) (simp add: byte_of_def)

lemma dec_digits_all: "\<forall>c \<in> set (dec_digits n). in_range CHR ''0'' CHR ''9'' c"
  by (induction n rule: dec_digits.induct) (subst dec_digits.simps, auto simp: in_range_digit_char)

lemma dec_digits_ne: "dec_digits n \<noteq> []"
  by (subst dec_digits.simps) simp

lemma digits_val_append: "digits_val n (xs @ ys) = digits_val (digits_val n xs) ys"
  by (induction xs arbitrary: n) auto

lemma digits_val_dec: "digits_val 0 (dec_digits n) = int n"
proof (induction n rule: dec_digits.induct)
  case (1 n)
  show ?case
  proof (cases "n < 10")
    case True
    then show ?thesis by (subst dec_digits.simps) (simp add: byte_of_digit_char)
  next
    case False
    have "digits_val 0 (dec_digits n) = int (n div 10) * 10 + int (n mod 10)"
      using False 1 by (subst dec_digits.simps) (simp add: digits_val_append byte_of_digit_char)
    then show ?thesis by presburger
  qed
qed

lemma digits_val_mono:
  "\<forall>c \<in> set cs. in_range CHR ''0'' CHR ''9'' c \<Longrightarrow> 0 \<le> n \<Longrightarrow> n \<le> digits_val n cs"
proof (induction cs arbitrary: n)
  case Nil then show ?case by simp
next
  case (Cons c cs)
  have "48 \<le> byte_of c" using Cons.prems by (simp add: in_range_digit_iff)
  then have "n \<le> n * 10 + (byte_of c - 48)" using Cons.prems by simp
  moreover have "n * 10 + (byte_of c - 48) \<le> digits_val (n * 10 + (byte_of c - 48)) cs"
    using Cons.prems \<open>48 \<le> byte_of c\<close> by (intro Cons.IH) auto
  ultimately show ?case by simp
qed

lemma parseUint_loop_digits:
  "\<forall>c \<in> set cs. in_range CHR ''0'' CHR ''9'' c \<Longrightarrow> 0 \<le> n \<Longrightarrow> digits_val n cs < 2 ^ 64
   \<Longrightarrow> parseUint_loop n cs = Inr (digits_val n cs)"
proof (induction cs arbitrary: n)
  case Nil then show ?case by simp
next
  case (Cons c cs)
  let ?d = "byte_of c - 48"
  let ?n1 = "n * 10 + ?d"
  have d: "0 \<le> ?d" "?d < 10" using Cons.prems by (auto simp: in_range_digit_iff)
  have le: "?n1 \<le> digits_val ?n1 cs"
    using Cons.prems d by (intro digits_val_mono) auto
  then have lt: "?n1 < 2 ^ 64" using Cons.prems by simp
  then have n: "n < 1844674407370955162" using d Cons.prems by simp
  have md: "?n1 mod 2 ^ 64 = ?n1" using lt d Cons.prems by simp
  have b0: "byte_of CHR ''0'' = 48" by (simp add: byte_of_def)
  have "parseUint_loop n (c # cs) = parseUint_loop ?n1 cs"
    using Cons.prems(1) d n lt md Cons.prems(2)
    by (simp add: Let_def maxUint64_def b0 del: parseUint_loop.simps(2) add: parseUint_loop.simps(2)[of n c cs])
  also have "\<dots> = Inr (digits_val ?n1 cs)"
    using Cons.prems d by (intro Cons.IH) auto
  finally show ?case by simp
qed

lemma parseUint_loop_nondigit:
  "\<exists>c \<in> set cs. \<not> in_range CHR ''0'' CHR ''9'' c \<Longrightarrow> isl (parseUint_loop n cs)"
proof (induction cs arbitrary: n)
  case Nil then show ?case by simp
next
  case (Cons c cs)
  show ?case
  proof (cases "in_range CHR ''0'' CHR ''9'' c")
    case True
    then have "\<exists>c \<in> set cs. \<not> in_range CHR ''0'' CHR ''9'' c" using Cons.prems by auto
    then have "\<And>m. isl (parseUint_loop m cs)" by (rule Cons.IH)
    then show ?thesis using True by (simp add: Let_def)
  next
    case False
    have "in_range CHR ''a'' CHR ''z'' (lower c) \<Longrightarrow> 10 \<le> byte_of (lower c) - byte_of CHR ''a'' + 10"
      by (simp add: in_range_def)
    then show ?thesis using False by (simp add: Let_def)
  qed
qed

lemma ParseInt_decimal_nonneg:
  assumes "0 \<le> i" "i < 2 ^ 63"
  shows "ParseInt (decimal i) = Inr i"
proof -
  let ?s = "dec_digits (nat i)"
  have dig: "\<forall>c \<in> set ?s. in_range CHR ''0'' CHR ''9'' c" by (rule dec_digits_all)
  have v: "digits_val 0 ?s = i" using assms by (simp add: digits_val_dec)
  have pu: "ParseUint ?s = Inr i"
    using parseUint_loop_digits [OF dig, of 0] v assms by (simp add: ParseUint_def dec_digits_ne)
  obtain c cs where s: "?s = c # cs" using dec_digits_ne [of "nat i"] by (cases ?s) auto
  have "in_range CHR ''0'' CHR ''9'' c" using dig s by simp
  then have "c \<noteq> CHR ''-''" "c \<noteq> CHR ''+''" by (auto simp: in_range_def byte_of_def)
  then show ?thesis using assms pu s
    by (simp add: ParseInt_def decimal_def Let_def int64_of_uint64_def)
qed

lemma ParseInt_decimal_neg:
  assumes "i < 0" "- (2 ^ 63) \<le> i"
  shows "ParseInt (decimal i) = Inr i"
proof -
  let ?s = "dec_digits (nat (- i))"
  have dig: "\<forall>c \<in> set ?s. in_range CHR ''0'' CHR ''9'' c" by (rule dec_digits_all)
  have v: "digits_val 0 ?s = - i" using assms by (simp add: digits_val_dec)
  have pu: "ParseUint ?s = Inr (- i)"
    using parseUint_loop_digits [OF dig, of 0] v assms by (simp add: ParseUint_def dec_digits_ne)
  show ?thesis using assms pu
    by (simp add: ParseInt_def decimal_def Let_def int64_of_uint64_def neg_int64_def)
qed

lemma ParseInt_nondigit:
  assumes "\<exists>c \<in> set (strip_sign s). \<not> in_range CHR ''0'' CHR ''9'' c"
  shows "isl (ParseInt s)"
proof (cases s)
  case Nil
  then show ?thesis by (simp add: ParseInt_def)
next
  case (Cons c cs)
  let ?s1 = "if hd s = CHR ''+'' \<or> hd s = CHR ''-'' then tl s else s"
  have s1: "?s1 = strip_sign s" using Cons by (simp add: strip_sign_def)
  have "isl (ParseUint ?s1)"
    unfolding s1 using parseUint_loop_nondigit [OF assms, of 0] by (auto simp: ParseUint_def)
  then obtain e where "ParseUint ?s1 = Inl e" by (cases "ParseUint ?s1") auto
  then show ?thesis unfolding Cons
    by (cases e) (auto simp: ParseInt_def Let_def)
qed

lemma ParseInt_no_digits: "strip_sign s = [] \<Longrightarrow> ParseInt s = Inl ErrSyntax"
  by (cases s) (auto simp: ParseInt_def strip_sign_def ParseUint_def Let_def split: if_splits)

lemma ByName_absent: "name \<notin> fst ` set ps \<Longrightarrow> ByName ps name = []"
  by (induction ps) auto

text \<open>
  Claim C6. \<^verbatim>\<open>readIDParam\<close> reads the path parameter \<^verbatim>\<open>id\<close> as a decimal signed 64-bit
  integer. It returns every value from 0 to \<open>2 ^ 63 - 1\<close>, zero included, when the
  parameter is the decimal numeral of the value. It fails with \<^verbatim>\<open>invalid id parameter\<close>
  when the parameter is absent, when a byte after the optional sign is not a decimal
  digit, and when the parameter is the numeral of a negative 64-bit integer. So
  \<^verbatim>\<open>42\<close> gives 42, and \<^verbatim>\<open>-1\<close> and \<^verbatim>\<open>abc\<close> are rejected.
\<close>

lemma readIDParam_nonneg:
  "0 \<le> i \<Longrightarrow> i < 2 ^ 63 \<Longrightarrow> ByName ps ''id'' = decimal i \<Longrightarrow> readIDParam ps = Inr i"
  using ParseInt_decimal_nonneg [of i] by (simp add: readIDParam_def)

lemma readIDParam_absent: "''id'' \<notin> fst ` set ps \<Longrightarrow> readIDParam ps = Inl invalid_id"
  by (simp add: readIDParam_def ByName_absent ParseInt_def invalid_id_def)

lemma readIDParam_nondigit:
  assumes "\<exists>c \<in> set (strip_sign (ByName ps ''id'')). \<not> in_range CHR ''0'' CHR ''9'' c"
  shows "readIDParam ps = Inl invalid_id"
proof -
  have "isl (ParseInt (ByName ps ''id''))" using assms by (rule ParseInt_nondigit)
  then obtain e where "ParseInt (ByName ps ''id'') = Inl e"
    by (cases "ParseInt (ByName ps ''id'')") auto
  then show ?thesis by (simp add: readIDParam_def invalid_id_def)
qed

lemma readIDParam_negative:
  "- (2 ^ 63) \<le> i \<Longrightarrow> i < 0 \<Longrightarrow> ByName ps ''id'' = decimal i \<Longrightarrow> readIDParam ps = Inl invalid_id"
  using ParseInt_decimal_neg [of i] by (simp add: readIDParam_def invalid_id_def)

theorem readIDParam_accepts_exactly_nonnegative:
  "(0 \<le> i \<and> i < 2 ^ 63 \<and> ByName ps ''id'' = decimal i \<longrightarrow> readIDParam ps = Inr i)
   \<and> (''id'' \<notin> fst ` set ps \<longrightarrow> readIDParam ps = Inl invalid_id)
   \<and> ((\<exists>c \<in> set (strip_sign (ByName ps ''id'')). \<not> in_range CHR ''0'' CHR ''9'' c)
           \<longrightarrow> readIDParam ps = Inl invalid_id)
   \<and> (- (2 ^ 63) \<le> i \<and> i < 0 \<and> ByName ps ''id'' = decimal i
           \<longrightarrow> readIDParam ps = Inl invalid_id)
   \<and> readIDParam [(''id'', ''42'')] = Inr 42
   \<and> readIDParam [(''id'', ''0'')] = Inr 0
   \<and> readIDParam [(''id'', ''-1'')] = Inl invalid_id
   \<and> readIDParam [(''id'', ''abc'')] = Inl invalid_id"
proof -
  have d42: "decimal 42 = ''42''" by code_simp
  have d0: "decimal 0 = ''0''" by code_simp
  have dm1: "decimal (- 1) = ''-1''" by code_simp
  have e1: "readIDParam [(''id'', ''42'')] = Inr 42"
    by (rule readIDParam_nonneg) (simp_all add: d42)
  have e2: "readIDParam [(''id'', ''0'')] = Inr 0"
    by (rule readIDParam_nonneg) (simp_all add: d0)
  have e3: "readIDParam [(''id'', ''-1'')] = Inl invalid_id"
    by (rule readIDParam_negative [of "- 1"]) (simp_all add: dm1)
  have e4: "readIDParam [(''id'', ''abc'')] = Inl invalid_id"
    by (rule readIDParam_nondigit) (simp add: strip_sign_def in_range_def byte_of_def)
  show ?thesis
    using readIDParam_nonneg [of i ps] readIDParam_absent [of ps] readIDParam_nondigit [of ps]
      readIDParam_negative [of i ps] e1 e2 e3 e4
    by blast
qed

theorem readIDParam_accepts_exactly_nonnegative_witness:
  "readIDParam [(''id'', ''7'')] = Inr 7
   \<and> readIDParam [(''page'', ''3'')] = Inl invalid_id
   \<and> readIDParam [(''id'', ''1x'')] = Inl invalid_id
   \<and> readIDParam [(''id'', ''-12'')] = Inl invalid_id"
proof -
  have d7: "decimal 7 = ''7''" by code_simp
  have dm: "decimal (- 12) = ''-12''" by code_simp
  have "readIDParam [(''id'', ''7'')] = Inr 7"
    using readIDParam_accepts_exactly_nonnegative [of 7 "[(''id'', ''7'')]"] by (simp add: d7)
  moreover have "readIDParam [(''page'', ''3'')] = Inl invalid_id"
    using readIDParam_accepts_exactly_nonnegative [of 0 "[(''page'', ''3'')]"] by simp
  moreover have "readIDParam [(''id'', ''1x'')] = Inl invalid_id"
    using readIDParam_accepts_exactly_nonnegative [of 0 "[(''id'', ''1x'')]"]
    by (simp add: strip_sign_def in_range_def byte_of_def)
  moreover have "readIDParam [(''id'', ''-12'')] = Inl invalid_id"
    using readIDParam_accepts_exactly_nonnegative [of "- 12" "[(''id'', ''-12'')]"] by (simp add: dm)
  ultimately show ?thesis by simp
qed

subsection \<open>The scanner and readValue\<close>

lemmas state_defs = do_stateBeginValue_def do_stateBeginValueOrEmpty_def do_stateBeginStringOrEmpty_def
  do_stateBeginString_def do_stateEndValue_def do_stateEndTop_def do_stateInString_def
  do_stateInStringEsc_def do_stateInStringEscU_def do_stateNeg_def do_state1_def do_state0_def
  do_stateDot_def do_stateDot0_def do_stateE_def do_stateESign_def do_stateE0_def expect_def
  go_to_def scan_error_def pushParseState_def popParseState_def



lemma good_err_bytes [simp]: "good_err (s\<lparr>bytes := b\<rparr>) = good_err s"
  by (simp add: good_err_def)









subsection \<open>Decoding into the empty struct\<close>






subsection \<open>readJSON after the first value\<close>

lemma body_decoder_simps:
  "buf (body_decoder body) = take maxBites body"
  "rerr (body_decoder body) = (if length body > maxBites then MaxBytesError maxBites else EOF)"
  "derr (body_decoder body) = None"
  "disallowUnknownFields (body_decoder body) = True"
  by (simp_all add: body_decoder_def DisallowUnknownFields_def NewDecoder_def MaxBytesReader_def)


lemmas eval_defs = first_value_length_def first_decode_def Decode_def readValue_def body_decoder_def
  maxBites_def reset_def DisallowUnknownFields_def NewDecoder_def MaxBytesReader_def newScanner_def
  scan_step_def state_defs isSpace_def nonSpace_def maxNestingDepth_def incomplete_def

lemma scan_loop_spaces_array:
  "\<forall>c \<in> set b. isSpace c \<Longrightarrow> step s = stateBeginValueOrEmpty
   \<Longrightarrow> scan_loop s b n = OutOfBytes (s\<lparr>bytes := bytes s + length b\<rparr>)"
proof (induction b arbitrary: s n)
  case Nil
  then show ?case by simp
next
  case (Cons c cs)
  have "scan_step (s\<lparr>bytes := bytes s + 1\<rparr>) c = (scanSkipSpace, s\<lparr>bytes := bytes s + 1\<rparr>)"
    using Cons.prems by (simp add: scan_step_def do_stateBeginValueOrEmpty_def)
  then show ?case using Cons.IH [of "s\<lparr>bytes := bytes s + 1\<rparr>" "Suc n"] Cons.prems by simp
qed

lemma digit_char_simps:
  "digit_char 0 = CHR ''0''" "digit_char 1 = CHR ''1''" "digit_char (Suc 0) = CHR ''1''"
  "digit_char 2 = CHR ''2''" "digit_char 3 = CHR ''3''" "digit_char 4 = CHR ''4''"
  "digit_char 5 = CHR ''5''" "digit_char 6 = CHR ''6''" "digit_char 7 = CHR ''7''"
  "digit_char 8 = CHR ''8''" "digit_char 9 = CHR ''9''"
  by code_simp+

lemmas decimal_eval = decimal_def dec_digits.simps digit_char_simps

lemma decimal_maxBites: "decimal (int maxBites) = ''1048576''"
  by (simp add: maxBites_def decimal_eval)

lemma readJSON_too_large:
  assumes "length body > maxBites" and "incomplete (take maxBites body)"
  shows "readJSON u body dst = Returns (Some too_large_error)"
proof -
  obtain s where s: "scan_loop (reset newScanner) (take maxBites body) 0 = OutOfBytes s"
    using assms(2) by (auto simp: incomplete_def split: scan_result.splits)
  have r: "reset (scan (body_decoder body)) = reset newScanner"
    by (simp add: body_decoder_def DisallowUnknownFields_def NewDecoder_def)
  have "readValue (body_decoder body)
      = (Inl (MaxBytesError maxBites), (body_decoder body)\<lparr>scan := s, derr := Some (MaxBytesError maxBites)\<rparr>)"
    using assms(1) s by (simp add: readValue_def r body_decoder_simps)
  then have "Decode u (body_decoder body) dst
      = (Some (MaxBytesError maxBites), (body_decoder body)\<lparr>scan := s, derr := Some (MaxBytesError maxBites)\<rparr>)"
    by (simp add: Decode_def body_decoder_simps)
  moreover have "triage u (MaxBytesError maxBites) = Returns (Some too_large_error)"
    by (simp add: triage_def HasPrefix_def decimal_maxBites too_large_error_def)
  ultimately show ?thesis by (simp add: readJSON_def body_decoder_def [symmetric])
qed


subsection \<open>Claims about readJSON\<close>

text \<open>
  Claim C4. For every destination, \<^verbatim>\<open>readJSON\<close> of the empty body returns the error
  \<^verbatim>\<open>body cannot be empty\<close>, which is none of the errors for badly-formed JSON.
\<close>

theorem readJSON_empty_body:
  "readJSON u [] dst = Returns (Some (ErrorString ''body cannot be empty''))"
  by (simp add: readJSON_def eval_defs triage_def)





text \<open>
  Claim C2, amended. The limit of the body is 1,048,576 bytes. When the body is longer
  and its first 1,048,576 bytes are incomplete (the scanner reaches neither the end of a
  value nor a syntax error in them), \<^verbatim>\<open>readJSON\<close> returns the error
  \<^verbatim>\<open>body cannot be larger than 1048576 bytes\<close>, for every destination.
\<close>

theorem readJSON_body_too_large:
  assumes "length body > maxBites" and "incomplete (take maxBites body)"
  shows "maxBites = 1048576 \<and> readJSON u body dst = Returns (Some too_large_error)"
  using readJSON_too_large [OF assms] by (simp add: maxBites_def)

theorem readJSON_body_too_large_witness:
  "length (CHR ''['' # replicate 1048576 (CHR '' '')) > maxBites
   \<and> readJSON identity_tables (CHR ''['' # replicate 1048576 (CHR '' '')) NilDestination = Returns (Some too_large_error)"
proof -
  let ?body = "CHR ''['' # replicate 1048576 (CHR '' '')"
  have len: "length ?body > maxBites" by (simp add: maxBites_def)
  have "take maxBites ?body = CHR ''['' # replicate 1048575 (CHR '' '')"
    by (simp add: maxBites_def)
  moreover have "incomplete (CHR ''['' # replicate 1048575 (CHR '' ''))"
    by (simp add: incomplete_def reset_def newScanner_def scan_step_def state_defs isSpace_def
        maxNestingDepth_def scan_loop_spaces_array)
  ultimately have inc: "incomplete (take maxBites ?body)" by simp
  show ?thesis using readJSON_body_too_large [OF len inc, where dst = NilDestination and u = identity_tables] len
    by (simp add: maxBites_def)
qed

text \<open>
  A body over the limit whose first byte is a syntax error: the first bytes decide the
  result, whatever the tables are.
\<close>

lemma syntax_error_past_limit:
  "length (CHR ''x'' # replicate 1048576 (CHR ''x'')) > maxBites
   \<and> readJSON u (CHR ''x'' # replicate 1048576 (CHR ''x'')) NilDestination
       = Returns (Some (ErrorString ''body contains badly-formed JSON (at character 1)''))"
  by (simp add: readJSON_def eval_defs triage_def in_range_def byte_of_def decimal_eval)

text \<open>
  The claim as it is written fails on that body: it is over the limit, and the error
  that \<^verbatim>\<open>readJSON\<close> returns does not tell the limit.
\<close>

theorem readJSON_body_too_large_counterexample:
  "length (CHR ''x'' # replicate 1048576 (CHR ''x'')) > maxBites
   \<and> readJSON identity_tables (CHR ''x'' # replicate 1048576 (CHR ''x'')) NilDestination
       = Returns (Some (ErrorString ''body contains badly-formed JSON (at character 1)''))"
  by (rule syntax_error_past_limit)

text \<open>
  Claim C5. When the first \<^verbatim>\<open>Decode\<close> reports a \<^verbatim>\<open>*json.InvalidUnmarshalError\<close>,
  \<^verbatim>\<open>readJSON\<close> panics with it; when it reports any other error, \<^verbatim>\<open>readJSON\<close> returns an
  error; and when it reports none, \<^verbatim>\<open>readJSON\<close> returns. The decoder reports the invalid
  destination once it has read a complete value from the body: then a destination that
  is \<^verbatim>\<open>nil\<close>, no pointer or a nil pointer makes \<^verbatim>\<open>readJSON\<close> panic.
\<close>

theorem readJSON_panics_on_invalid_destination:
  "(first_decode u body dst = Some (InvalidUnmarshalError t)
      \<longrightarrow> readJSON u body dst = Panics (InvalidUnmarshalError t))
   \<and> (first_decode u body dst = Some e \<and> \<not> As_InvalidUnmarshalError e
      \<longrightarrow> (\<exists>e'. readJSON u body dst = Returns (Some e')))
   \<and> (first_decode u body dst = None \<longrightarrow> (\<exists>r. readJSON u body dst = Returns r))
   \<and> (refusal dst = Some e \<and> first_value_length body = Some n \<longrightarrow> readJSON u body dst = Panics e)"
proof -
  obtain r dec1 where D: "Decode u (body_decoder body) dst = (r, dec1)"
    by (cases "Decode u (body_decoder body) dst")
  have fd: "first_decode u body dst = r" using D by (simp add: first_decode_def)
  have rj: "readJSON u body dst =
      (case r of Some e \<Rightarrow> triage u e
       | None \<Rightarrow> (case Decode u dec1 empty_struct of (err2, dec2) \<Rightarrow>
           if err2 \<noteq> Some EOF then Returns (Some (ErrorString ''body can only contain a single json value''))
           else Returns None))"
    using D by (simp add: readJSON_def body_decoder_def [symmetric])
  have p1: "triage u (InvalidUnmarshalError t) = Panics (InvalidUnmarshalError t)" for t
    by (cases t) (simp_all add: triage_def HasPrefix_def)
  have p2: "\<not> As_InvalidUnmarshalError e \<Longrightarrow> \<exists>e'. triage u e = Returns (Some e')" for e
    by (simp add: triage_def Let_def)
  have c1: "first_decode u body dst = Some (InvalidUnmarshalError t)
      \<longrightarrow> readJSON u body dst = Panics (InvalidUnmarshalError t)"
    using fd rj p1 by auto
  have c2: "first_decode u body dst = Some e \<and> \<not> As_InvalidUnmarshalError e
      \<longrightarrow> (\<exists>e'. readJSON u body dst = Returns (Some e'))"
    using fd rj p2 by auto
  have c3: "first_decode u body dst = None \<longrightarrow> (\<exists>r. readJSON u body dst = Returns r)"
    using fd rj by (auto split: prod.splits)
  have c4: "refusal dst = Some e \<and> first_value_length body = Some n \<longrightarrow> readJSON u body dst = Panics e"
  proof
    assume a: "refusal dst = Some e \<and> first_value_length body = Some n"
    obtain x dec0 where rv: "readValue (body_decoder body) = (x, dec0)"
      by (cases "readValue (body_decoder body)")
    then have x: "x = Inr n" using a by (auto simp: first_value_length_def split: sum.splits)
    have u: "unmarshal u duf dst data = Some e" for duf data
      using a by (cases dst) (auto simp: unmarshal_def)
    obtain t' where e: "e = InvalidUnmarshalError t'" using a by (cases dst) auto
    have "first_decode u body dst = Some e"
      using rv x u by (simp add: first_decode_def Decode_def body_decoder_simps)
    then show "readJSON u body dst = Panics e"
      using fd rj p1 [of t'] e by auto
  qed
  show ?thesis using c1 c2 c3 c4 by blast
qed

theorem readJSON_panics_on_invalid_destination_witness:
  "readJSON identity_tables ''{}'' (NonPointer ''main.movie'') = Panics (InvalidUnmarshalError (NonPointerOf ''main.movie''))
   \<and> (\<exists>e'. readJSON identity_tables ''{'' (NonPointer ''main.movie'') = Returns (Some e'))
   \<and> (\<exists>r. readJSON identity_tables ''{}'' empty_struct = Returns r)
   \<and> readJSON identity_tables ''[1]'' NilDestination = Panics (InvalidUnmarshalError NilValue)"
proof -
  have f1: "first_decode identity_tables ''{}'' (NonPointer ''main.movie'') = Some (InvalidUnmarshalError (NonPointerOf ''main.movie''))"
    by (simp add: eval_defs unmarshal_def)
  have f2: "first_decode identity_tables ''{'' (NonPointer ''main.movie'') = Some ErrUnexpectedEOF"
    by (simp add: eval_defs)
  have um: "unmarshal identity_tables True empty_struct ''{}'' = None" by code_simp
  have f3: "first_decode identity_tables ''{}'' empty_struct = None"
    using um by (simp add: eval_defs)
  have f4: "first_value_length ''[1]'' = Some 3"
    by (simp add: eval_defs in_range_def byte_of_def)
  have "readJSON identity_tables ''{}'' (NonPointer ''main.movie'') = Panics (InvalidUnmarshalError (NonPointerOf ''main.movie''))"
    using readJSON_panics_on_invalid_destination [where u = identity_tables and body = "''{}''" and dst = "NonPointer ''main.movie''" and t = "NonPointerOf ''main.movie''"] f1
    by simp
  moreover have "\<exists>e'. readJSON identity_tables ''{'' (NonPointer ''main.movie'') = Returns (Some e')"
    using readJSON_panics_on_invalid_destination [where u = identity_tables and body = "''{''" and dst = "NonPointer ''main.movie''" and e = ErrUnexpectedEOF] f2
    by simp
  moreover have "\<exists>r. readJSON identity_tables ''{}'' empty_struct = Returns r"
    using readJSON_panics_on_invalid_destination [where u = identity_tables and body = "''{}''" and dst = empty_struct] f3
    by simp
  moreover have "readJSON identity_tables ''[1]'' NilDestination = Panics (InvalidUnmarshalError NilValue)"
    using readJSON_panics_on_invalid_destination [where u = identity_tables and body = "''[1]''" and dst = NilDestination and e = "InvalidUnmarshalError NilValue" and n = 3] f4
    by simp
  ultimately show ?thesis by simp
qed

subsection \<open>Storing the members of an object\<close>








subsection \<open>Keys beyond ASCII\<close>

text \<open>
  Two examples of what the tables decide. The soft hyphen U+00AD is not printable, so a
  key with it is quoted with an escape, whatever the tables are. The Kelvin sign U+212A
  folds to the letter K, so a key that spells \<^verbatim>\<open>kind\<close> with it finds the field \<^verbatim>\<open>kind\<close>.
\<close>

lemma Quote_soft_hyphen:
  "Quote u (''caf'' @ [CHR 0xC3, CHR 0xA9, CHR 0xC2, CHR 0xAD])
     = ''\"caf'' @ [CHR 0xC3, CHR 0xA9, CHR 0x5C] @ ''u00ad\"''"
  by code_simp

lemma find_field_Kelvin:
  assumes "foldRune u 8490 = 75"
  shows "find_field u [(''kind'', TString)] ([CHR 0xE2, CHR 0x84, CHR 0xAA] @ ''ind'')
           = Some (''kind'', TString)"
proof -
  have k: "char_of (75 :: int) = CHR ''K''" "char_of (75 :: nat) = CHR ''K''" by code_simp+
  show ?thesis using assms
    by (simp add: find_field_def rune_value_def rune_width_def utf8_len_def cont_in_def
        EncodeRune_def in_range_def byte_of_def k)
qed





subsection \<open>Claims about writeJSON\<close>






lemma writeJSON_invalid_status:
  assumes "MarshalIndent data [] [CHR 0x09] = Inr js" and "\<not> wroteHeader w"
    and "status < 100 \<or> 999 < status"
  shows "writeJSON w status data headers =
    (Panics (ErrorString (''invalid WriteHeader code '' @ decimal status)),
     w\<lparr>header := (header w ++ headers)(''Content-Type'' \<mapsto> [''application/json''])\<rparr>)"
  using assms
  by (auto simp: writeJSON_def Let_def Header_Set_def WriteHeader_def Write_def
      checkWriteHeaderCode_def bodyAllowedForStatus_def)

lemma marshal_id_7:
  "MarshalIndent (Some [(''id'', VInt 7)]) [] [CHR 0x09]
      = Inr ([CHR ''{'', CHR 0x0A, CHR 0x09] @ ''\"id\": 7'' @ [CHR 0x0A, CHR ''}''])"
  by code_simp






text \<open>
  Claim C10, amended. When the serialization succeeds and the status code is from 100 to
  999, or the status line of the writer is written already, \<^verbatim>\<open>writeJSON\<close> returns \<^verbatim>\<open>nil\<close>,
  for every header map and every writer, whatever error \<^verbatim>\<open>w.Write\<close> returns for the body:
  the error of a writer whose writes fail, or the refusal of a body under the status
  101, 204 or 304. When the serialization succeeds, the status line is not yet written and the
  status code is below 100 or above 999, \<^verbatim>\<open>writeJSON\<close> does not return: it panics.
\<close>

theorem writeJSON_returns_nil:
  "(MarshalIndent data [] [CHR 0x09] = Inr js \<and> (wroteHeader w \<or> (100 \<le> status \<and> status \<le> 999))
      \<longrightarrow> fst (writeJSON w status data headers) = Returns None)
   \<and> (MarshalIndent data [] [CHR 0x09] = Inr js \<and> \<not> wroteHeader w
        \<and> 200 \<le> status \<and> status \<le> 999 \<and> status \<noteq> 204 \<and> status \<noteq> 304
        \<and> write_error w = Some e \<longrightarrow>
        (\<exists>w3. WriteHeader (Header_Set (w\<lparr>header := header w ++ headers\<rparr>)
                  ''Content-Type'' ''application/json'') status = Inr w3
             \<and> snd (Write w3 (js @ [CHR 0x0A])) = Some e)
        \<and> fst (writeJSON w status data headers) = Returns None)
   \<and> (MarshalIndent data [] [CHR 0x09] = Inr js \<and> \<not> wroteHeader w
        \<and> (status = 101 \<or> status = 204 \<or> status = 304) \<longrightarrow>
        (\<exists>w3. WriteHeader (Header_Set (w\<lparr>header := header w ++ headers\<rparr>)
                  ''Content-Type'' ''application/json'') status = Inr w3
             \<and> snd (Write w3 (js @ [CHR 0x0A])) = Some ErrBodyNotAllowed)
        \<and> fst (writeJSON w status data headers) = Returns None)
   \<and> (MarshalIndent data [] [CHR 0x09] = Inr js \<and> \<not> wroteHeader w \<and> (status < 100 \<or> 999 < status)
      \<longrightarrow> fst (writeJSON w status data headers)
            = Panics (ErrorString (''invalid WriteHeader code '' @ decimal status)))"
proof -
  have a: "fst (writeJSON w status data headers) = Returns None"
    if "MarshalIndent data [] [CHR 0x09] = Inr js" "wroteHeader w \<or> (100 \<le> status \<and> status \<le> 999)"
    using that
    by (auto simp: writeJSON_def Let_def Header_Set_def WriteHeader_def checkWriteHeaderCode_def)
  have b: "\<exists>w3. WriteHeader (Header_Set (w\<lparr>header := header w ++ headers\<rparr>)
                  ''Content-Type'' ''application/json'') status = Inr w3
             \<and> snd (Write w3 (js @ [CHR 0x0A])) = Some e"
    if "\<not> wroteHeader w" "200 \<le> status" "status \<le> 999" "status \<noteq> 204" "status \<noteq> 304"
       "write_error w = Some e"
    using that
    by (auto simp: Header_Set_def WriteHeader_def checkWriteHeaderCode_def Write_def
        bodyAllowedForStatus_def)
  have c: "\<exists>w3. WriteHeader (Header_Set (w\<lparr>header := header w ++ headers\<rparr>)
                  ''Content-Type'' ''application/json'') status = Inr w3
             \<and> snd (Write w3 (js @ [CHR 0x0A])) = Some ErrBodyNotAllowed"
    if "\<not> wroteHeader w" "status = 101 \<or> status = 204 \<or> status = 304"
    using that
    by (auto simp: Header_Set_def WriteHeader_def checkWriteHeaderCode_def Write_def
        bodyAllowedForStatus_def)
  have d: "fst (writeJSON w status data headers)
            = Panics (ErrorString (''invalid WriteHeader code '' @ decimal status))"
    if "MarshalIndent data [] [CHR 0x09] = Inr js" "\<not> wroteHeader w" "status < 100 \<or> 999 < status"
    using writeJSON_invalid_status [OF that] by simp
  have a200: "fst (writeJSON w status data headers) = Returns None"
    if "MarshalIndent data [] [CHR 0x09] = Inr js" "200 \<le> status" "status \<le> 999"
    using a that by simp
  have a204: "fst (writeJSON w status data headers) = Returns None"
    if "MarshalIndent data [] [CHR 0x09] = Inr js" "status = 101 \<or> status = 204 \<or> status = 304"
    using a that by auto
  show ?thesis using a200 a204 b c d a by blast
qed

theorem writeJSON_returns_nil_witness:
  "fst (writeJSON
       \<lparr>header = Map.empty, informational = [], wroteHeader = False, statusCode = 0, written = [],
        write_error = Some (ErrorString ''write: broken pipe'')\<rparr>
       200 (Some [(''id'', VInt 7)]) Map.empty) = Returns None
   \<and> (\<exists>w3. WriteHeader (Header_Set
          (\<lparr>header = Map.empty, informational = [], wroteHeader = False, statusCode = 0, written = [],
            write_error = Some (ErrorString ''write: broken pipe'')\<rparr>\<lparr>header := Map.empty ++ Map.empty\<rparr>)
          ''Content-Type'' ''application/json'') 200 = Inr w3
        \<and> snd (Write w3 (([CHR ''{'', CHR 0x0A, CHR 0x09] @ ''\"id\": 7'' @ [CHR 0x0A, CHR ''}'']) @ [CHR 0x0A]))
            = Some (ErrorString ''write: broken pipe''))
   \<and> (\<exists>w3. WriteHeader (Header_Set
          (\<lparr>header = Map.empty, informational = [], wroteHeader = False, statusCode = 0, written = [],
            write_error = None\<rparr>\<lparr>header := Map.empty ++ Map.empty\<rparr>)
          ''Content-Type'' ''application/json'') 204 = Inr w3
        \<and> snd (Write w3 (([CHR ''{'', CHR 0x0A, CHR 0x09] @ ''\"id\": 7'' @ [CHR 0x0A, CHR ''}'']) @ [CHR 0x0A]))
            = Some ErrBodyNotAllowed)
   \<and> fst (writeJSON
       \<lparr>header = Map.empty, informational = [], wroteHeader = False, statusCode = 0, written = [],
        write_error = None\<rparr>
       204 (Some [(''id'', VInt 7)]) Map.empty) = Returns None
   \<and> fst (writeJSON
       \<lparr>header = Map.empty, informational = [], wroteHeader = False, statusCode = 0, written = [],
        write_error = None\<rparr>
       (- 1) (Some [(''id'', VInt 7)]) Map.empty) = Panics (ErrorString ''invalid WriteHeader code -1'')"
proof -
  let ?js = "[CHR ''{'', CHR 0x0A, CHR 0x09] @ ''\"id\": 7'' @ [CHR 0x0A, CHR ''}'']"
  let ?wf = "\<lparr>header = Map.empty, informational = [], wroteHeader = False, statusCode = 0,
              written = [], write_error = Some (ErrorString ''write: broken pipe'')\<rparr>"
  let ?w = "\<lparr>header = Map.empty, informational = [], wroteHeader = False, statusCode = 0,
             written = [], write_error = None\<rparr>"
  have d: "decimal (- 1) = ''-1''" by code_simp
  have one: "(\<exists>w3. WriteHeader (Header_Set (?wf\<lparr>header := Map.empty ++ Map.empty\<rparr>)
                  ''Content-Type'' ''application/json'') 200 = Inr w3
             \<and> snd (Write w3 (?js @ [CHR 0x0A])) = Some (ErrorString ''write: broken pipe''))
        \<and> fst (writeJSON ?wf 200 (Some [(''id'', VInt 7)]) Map.empty) = Returns None"
    using writeJSON_returns_nil [where data = "Some [(''id'', VInt 7)]" and js = ?js and w = ?wf
        and status = 200 and headers = Map.empty and e = "ErrorString ''write: broken pipe''"]
      marshal_id_7
    by simp
  have two: "(\<exists>w3. WriteHeader (Header_Set (?w\<lparr>header := Map.empty ++ Map.empty\<rparr>)
                  ''Content-Type'' ''application/json'') 204 = Inr w3
             \<and> snd (Write w3 (?js @ [CHR 0x0A])) = Some ErrBodyNotAllowed)
        \<and> fst (writeJSON ?w 204 (Some [(''id'', VInt 7)]) Map.empty) = Returns None"
    using writeJSON_returns_nil [where data = "Some [(''id'', VInt 7)]" and js = ?js and w = ?w
        and status = 204 and headers = Map.empty and e = EOF]
      marshal_id_7
    by simp
  have three: "fst (writeJSON ?w (- 1) (Some [(''id'', VInt 7)]) Map.empty)
      = Panics (ErrorString ''invalid WriteHeader code -1'')"
    using writeJSON_returns_nil [where data = "Some [(''id'', VInt 7)]" and js = ?js and w = ?w
        and status = "- 1" and headers = Map.empty and e = EOF]
      marshal_id_7 d
    by simp
  show ?thesis using one two three by blast
qed

text \<open>
  The claim as it is written fails on an envelope that is serialized without an error
  when the status code has more than three digits: \<^verbatim>\<open>writeJSON\<close> does not return \<^verbatim>\<open>nil\<close>,
  it panics in \<^verbatim>\<open>w.WriteHeader\<close>.
\<close>

theorem writeJSON_returns_nil_counterexample:
  "MarshalIndent (Some [(''id'', VInt 7)]) [] [CHR 0x09]
      = Inr ([CHR ''{'', CHR 0x0A, CHR 0x09] @ ''\"id\": 7'' @ [CHR 0x0A, CHR ''}''])
   \<and> fst (writeJSON
       \<lparr>header = Map.empty, informational = [], wroteHeader = False, statusCode = 0, written = [],
        write_error = None\<rparr>
       2000 (Some [(''id'', VInt 7)]) Map.empty) = Panics (ErrorString ''invalid WriteHeader code 2000'')
   \<and> fst (writeJSON
       \<lparr>header = Map.empty, informational = [], wroteHeader = False, statusCode = 0, written = [],
        write_error = None\<rparr>
       2000 (Some [(''id'', VInt 7)]) Map.empty) \<noteq> Returns None"
proof -
  have d: "decimal 2000 = ''2000''" by code_simp
  show ?thesis
    using marshal_id_7 d
    by (simp add: writeJSON_def Let_def Header_Set_def WriteHeader_def checkWriteHeaderCode_def)
qed

end
